theory Spec2Isabelle
  imports Complex_Main "HOL-Library.Sublist"
begin

section \<open>JavaScript numbers\<close>

text \<open>
  A JavaScript Number is an IEEE 754 binary64 value.  The finite values are kept by their
  exact real value (\<open>Fin 0\<close> is \<open>+0\<close>, \<open>NZero\<close> is \<open>-0\<close>); every arithmetic
  operation computes the exact real result and rounds it to the nearest binary64 value,
  ties to even, overflowing to an infinity.  The type admits every real under \<open>Fin\<close>, so
  a statement about all finite Numbers covers the representable ones.
\<close>

datatype jsnum = NaN | PInf | NInf | NZero | Fin real

text \<open>
  \<open>ilog2 r\<close> is the binary exponent of a positive real: the largest \<open>e\<close> with
  \<open>2 powi e \<le> r\<close>, found by bisection over \<open>[-2048, 2047]\<close> and clamped to that
  interval (the clamping never changes a rounded result: anything below \<open>2 powi (-1022)\<close>
  is rounded on the subnormal grid, anything from \<open>2 powi 1024\<close> on overflows).
\<close>

fun ilog2_search :: "nat \<Rightarrow> real \<Rightarrow> int \<Rightarrow> int" where
  "ilog2_search 0 r lo = lo"
| "ilog2_search (Suc k) r lo =
     (if 2 powi (lo + 2 ^ k) \<le> r then ilog2_search k r (lo + 2 ^ k) else ilog2_search k r lo)"

definition ilog2 :: "real \<Rightarrow> int" where
  "ilog2 r = ilog2_search 12 r (- 2048)"

text \<open>The exponent of the last mantissa bit: 53 significant bits, subnormals from \<open>2 powi (-1074)\<close>.\<close>

definition quantum :: "real \<Rightarrow> int" where
  "quantum r = max (ilog2 \<bar>r\<bar> - 52) (- 1074)"

definition round_half_even :: "real \<Rightarrow> int" where
  "round_half_even x =
     (let f = \<lfloor>x\<rfloor>; d = x - of_int f
      in if d < 1 / 2 then f else if 1 / 2 < d then f + 1 else if even f then f else f + 1)"

definition round64 :: "real \<Rightarrow> real" where
  "round64 r = (let q = quantum r in of_int (round_half_even (r / 2 powi q)) * 2 powi q)"

text \<open>
  \<open>fl neg r\<close> is the Number an operation with exact result \<open>r\<close> returns; \<open>neg\<close> is the
  sign of a zero result.
\<close>

definition fl :: "bool \<Rightarrow> real \<Rightarrow> jsnum" where
  "fl neg r =
     (let x = round64 r
      in if 2 ^ 1024 \<le> x then PInf
         else if x \<le> - (2 ^ 1024) then NInf
         else if x = 0 then (if neg then NZero else Fin 0)
         else Fin x)"

text \<open>A non-negative decimal literal of the source text denotes the nearest Number.\<close>

definition lit :: "real \<Rightarrow> jsnum" where
  "lit r = fl False r"

fun is_neg :: "jsnum \<Rightarrow> bool" where
  "is_neg NInf = True"
| "is_neg NZero = True"
| "is_neg (Fin x) = (x < 0)"
| "is_neg _ = False"

fun is_inf :: "jsnum \<Rightarrow> bool" where
  "is_inf PInf = True"
| "is_inf NInf = True"
| "is_inf _ = False"

fun is_zero :: "jsnum \<Rightarrow> bool" where
  "is_zero NZero = True"
| "is_zero (Fin x) = (x = 0)"
| "is_zero _ = False"

fun is_finite :: "jsnum \<Rightarrow> bool" where
  "is_finite NZero = True"
| "is_finite (Fin x) = True"
| "is_finite _ = False"

fun mag :: "jsnum \<Rightarrow> real" where
  "mag (Fin x) = x"
| "mag _ = 0"

definition signed_inf :: "bool \<Rightarrow> jsnum" where
  "signed_inf neg = (if neg then NInf else PInf)"

text \<open>\<open>isNaN\<close> on a Number.\<close>

definition isNaN :: "jsnum \<Rightarrow> bool" where
  "isNaN x = (x = NaN)"

text \<open>The operators \<open>+\<close>, unary \<open>-\<close>, binary \<open>-\<close>, \<open>*\<close> and \<open>/\<close> on Numbers.\<close>

definition js_add :: "jsnum \<Rightarrow> jsnum \<Rightarrow> jsnum" where
  "js_add a b =
     (if a = NaN \<or> b = NaN then NaN
      else if is_inf a then (if is_inf b \<and> a \<noteq> b then NaN else a)
      else if is_inf b then b
      else if a = NZero \<and> b = NZero then NZero
      else fl False (mag a + mag b))"

fun js_neg :: "jsnum \<Rightarrow> jsnum" where
  "js_neg NaN = NaN"
| "js_neg PInf = NInf"
| "js_neg NInf = PInf"
| "js_neg NZero = Fin 0"
| "js_neg (Fin x) = (if x = 0 then NZero else Fin (- x))"

definition js_sub :: "jsnum \<Rightarrow> jsnum \<Rightarrow> jsnum" where
  "js_sub a b = js_add a (js_neg b)"

definition js_mul :: "jsnum \<Rightarrow> jsnum \<Rightarrow> jsnum" where
  "js_mul a b =
     (if a = NaN \<or> b = NaN then NaN
      else if (is_inf a \<and> is_zero b) \<or> (is_zero a \<and> is_inf b) then NaN
      else if is_inf a \<or> is_inf b then signed_inf (is_neg a \<noteq> is_neg b)
      else fl (is_neg a \<noteq> is_neg b) (mag a * mag b))"

definition js_div :: "jsnum \<Rightarrow> jsnum \<Rightarrow> jsnum" where
  "js_div a b =
     (if a = NaN \<or> b = NaN then NaN
      else if (is_inf a \<and> is_inf b) \<or> (is_zero a \<and> is_zero b) then NaN
      else if is_inf a \<or> is_zero b then signed_inf (is_neg a \<noteq> is_neg b)
      else if is_inf b then fl (is_neg a \<noteq> is_neg b) 0
      else fl (is_neg a \<noteq> is_neg b) (mag a / mag b))"

text \<open>
  \<open>Math.round\<close>: the nearest integer, a tie going towards \<open>+\<infinity>\<close>; a negative argument
  that rounds to zero gives \<open>-0\<close>.
\<close>

fun Math_round :: "jsnum \<Rightarrow> jsnum" where
  "Math_round (Fin x) = (let n = \<lfloor>x + 1 / 2\<rfloor> in if n = 0 \<and> x < 0 then NZero else Fin (of_int n))"
| "Math_round x = x"

text \<open>
  \<open>Number.EPSILON\<close> is \<open>2 powi (-52)\<close>.  \<open>Math.pow(10, d)\<close> for a natural number \<open>d\<close> is
  the Number nearest to the power; the source only ever passes 10, where the power is exact.
\<close>

definition EPSILON :: jsnum where
  "EPSILON = Fin (1 / 2 ^ 52)"

definition Math_pow10 :: "nat \<Rightarrow> jsnum" where
  "Math_pow10 d = fl False (10 ^ d)"

section \<open>Values, strings and property lookup\<close>

text \<open>
  Strings are kept as the bytes of their UTF-8 encoding, which preserves equality,
  emptiness and concatenation.  The first argument of \<open>convert\<close> may be any value; the
  unit and category arguments are strings or absent (\<open>None\<close> is \<open>undefined\<close>).
\<close>

datatype js_value =
    JSNumber jsnum
  | JSString string
  | JSBoolean bool
  | JSUndefined
  | JSNull
  | JSBigInt int
  | JSSymbol string
  | JSObject
  | JSFunction

fun typeof :: "js_value \<Rightarrow> string" where
  "typeof (JSNumber n) = ''number''"
| "typeof (JSString s) = ''string''"
| "typeof (JSBoolean b) = ''boolean''"
| "typeof JSUndefined = ''undefined''"
| "typeof JSNull = ''object''"
| "typeof (JSBigInt i) = ''bigint''"
| "typeof (JSSymbol d) = ''symbol''"
| "typeof JSObject = ''object''"
| "typeof JSFunction = ''function''"

text \<open>\<open>!s\<close> for a string or \<open>undefined\<close>.\<close>

fun falsy :: "string option \<Rightarrow> bool" where
  "falsy None = True"
| "falsy (Some s) = (s = [])"

text \<open>
  A thrown value: \<open>new Error(msg)\<close> of the source, or the \<open>TypeError\<close> the engine raises
  when a property of \<open>undefined\<close> is read (with the message text of V8).
\<close>

datatype js_error = Error string | TypeError string

fun message :: "js_error \<Rightarrow> string" where
  "message (Error m) = m"
| "message (TypeError m) = m"

definition apostrophe :: string where
  "apostrophe = [CHR 0x27]"

definition cannot_read :: "string \<Rightarrow> js_error" where
  "cannot_read key =
     TypeError (''Cannot read properties of undefined (reading '' @ apostrophe @ key @ apostrophe @ '')'')"

text \<open>
  The registry tables are object literals, so \<open>obj[key]\<close> finds an own property, or else a
  property inherited from \<open>Object.prototype\<close> (a function, or the prototype object itself for
  \<open>__proto__\<close>: truthy, and without \<open>units\<close>, \<open>factor\<close> or \<open>symbol\<close> properties), or else
  \<open>undefined\<close>.
\<close>

datatype 'a js_prop = Own 'a | Inherited | Absent

definition object_prototype_keys :: "string list" where
  "object_prototype_keys =
     [''constructor'', ''__defineGetter__'', ''__defineSetter__'', ''hasOwnProperty'',
      ''__lookupGetter__'', ''__lookupSetter__'', ''isPrototypeOf'', ''propertyIsEnumerable'',
      ''toString'', ''valueOf'', ''__proto__'', ''toLocaleString'']"

definition get_prop :: "(string \<times> 'a) list \<Rightarrow> string \<Rightarrow> 'a js_prop" where
  "get_prop obj key =
     (case map_of obj key of
        Some v \<Rightarrow> Own v
      | None \<Rightarrow> if key \<in> set object_prototype_keys then Inherited else Absent)"

section \<open>The unit registry (models/unitCategories.js)\<close>

text \<open>
  The field \<open>classification\<close> is the unit's \<open>category\<close> tag of the source and
  \<open>display_name\<close> the category's \<open>name\<close>.  Integer factors below \<open>2 ^ 53\<close> are exact
  Numbers; every other factor is the Number nearest to its decimal literal.
\<close>

record unit_data =
  name :: string
  symbol :: string
  factor :: jsnum
  classification :: string

record category_data =
  display_name :: string
  icon :: string
  baseUnit :: string
  units :: "(string \<times> unit_data) list"

definition length_units :: "(string \<times> unit_data) list" where
  "length_units =
    [(''nanometer'', \<lparr>name = ''Nanometer'', symbol = ''nm'', factor = lit (1 / 10 ^ 9), classification = ''metric''\<rparr>),
     (''micrometer'', \<lparr>name = ''Micrometer'', symbol = [CHR 0xCE, CHR 0xBC] @ ''m'', factor = lit (1 / 10 ^ 6), classification = ''metric''\<rparr>),
     (''millimeter'', \<lparr>name = ''Millimeter'', symbol = ''mm'', factor = lit 0.001, classification = ''metric''\<rparr>),
     (''centimeter'', \<lparr>name = ''Centimeter'', symbol = ''cm'', factor = lit 0.01, classification = ''metric''\<rparr>),
     (''meter'', \<lparr>name = ''Meter'', symbol = ''m'', factor = Fin 1, classification = ''metric''\<rparr>),
     (''kilometer'', \<lparr>name = ''Kilometer'', symbol = ''km'', factor = Fin 1000, classification = ''metric''\<rparr>),
     (''inch'', \<lparr>name = ''Inch'', symbol = ''in'', factor = lit 0.0254, classification = ''imperial''\<rparr>),
     (''foot'', \<lparr>name = ''Foot'', symbol = ''ft'', factor = lit 0.3048, classification = ''imperial''\<rparr>),
     (''yard'', \<lparr>name = ''Yard'', symbol = ''yd'', factor = lit 0.9144, classification = ''imperial''\<rparr>),
     (''mile'', \<lparr>name = ''Mile'', symbol = ''mi'', factor = lit 1609.344, classification = ''imperial''\<rparr>),
     (''nauticalMile'', \<lparr>name = ''Nautical Mile'', symbol = ''nmi'', factor = Fin 1852, classification = ''nautical''\<rparr>),
     (''lightYear'', \<lparr>name = ''Light Year'', symbol = ''ly'', factor = lit 9461000000000000, classification = ''astronomical''\<rparr>)]"

definition weight_units :: "(string \<times> unit_data) list" where
  "weight_units =
    [(''milligram'', \<lparr>name = ''Milligram'', symbol = ''mg'', factor = lit (1 / 10 ^ 6), classification = ''metric''\<rparr>),
     (''gram'', \<lparr>name = ''Gram'', symbol = ''g'', factor = lit 0.001, classification = ''metric''\<rparr>),
     (''kilogram'', \<lparr>name = ''Kilogram'', symbol = ''kg'', factor = Fin 1, classification = ''metric''\<rparr>),
     (''tonne'', \<lparr>name = ''Tonne'', symbol = ''t'', factor = Fin 1000, classification = ''metric''\<rparr>),
     (''ounce'', \<lparr>name = ''Ounce'', symbol = ''oz'', factor = lit 0.0283495, classification = ''imperial''\<rparr>),
     (''pound'', \<lparr>name = ''Pound'', symbol = ''lb'', factor = lit 0.453592, classification = ''imperial''\<rparr>),
     (''stone'', \<lparr>name = ''Stone'', symbol = ''st'', factor = lit 6.35029, classification = ''imperial''\<rparr>),
     (''ton'', \<lparr>name = ''Ton (US)'', symbol = ''ton'', factor = lit 907.185, classification = ''imperial''\<rparr>)]"

definition volume_units :: "(string \<times> unit_data) list" where
  "volume_units =
    [(''milliliter'', \<lparr>name = ''Milliliter'', symbol = ''ml'', factor = lit 0.001, classification = ''metric''\<rparr>),
     (''liter'', \<lparr>name = ''Liter'', symbol = ''l'', factor = Fin 1, classification = ''metric''\<rparr>),
     (''cubicMeter'', \<lparr>name = ''Cubic Meter'', symbol = ''m'' @ [CHR 0xC2, CHR 0xB3], factor = Fin 1000, classification = ''metric''\<rparr>),
     (''fluidOunce'', \<lparr>name = ''Fluid Ounce (US)'', symbol = ''fl oz'', factor = lit 0.0295735, classification = ''imperial''\<rparr>),
     (''cup'', \<lparr>name = ''Cup (US)'', symbol = ''cup'', factor = lit 0.236588, classification = ''imperial''\<rparr>),
     (''pint'', \<lparr>name = ''Pint (US)'', symbol = ''pt'', factor = lit 0.473176, classification = ''imperial''\<rparr>),
     (''quart'', \<lparr>name = ''Quart (US)'', symbol = ''qt'', factor = lit 0.946353, classification = ''imperial''\<rparr>),
     (''gallon'', \<lparr>name = ''Gallon (US)'', symbol = ''gal'', factor = lit 3.78541, classification = ''imperial''\<rparr>),
     (''fluidOunceUK'', \<lparr>name = ''Fluid Ounce (UK)'', symbol = ''fl oz (UK)'', factor = lit 0.0284131, classification = ''uk-imperial''\<rparr>),
     (''pintUK'', \<lparr>name = ''Pint (UK)'', symbol = ''pt (UK)'', factor = lit 0.568261, classification = ''uk-imperial''\<rparr>),
     (''gallonUK'', \<lparr>name = ''Gallon (UK)'', symbol = ''gal (UK)'', factor = lit 4.54609, classification = ''uk-imperial''\<rparr>)]"

definition temperature_units :: "(string \<times> unit_data) list" where
  "temperature_units =
    [(''celsius'', \<lparr>name = ''Celsius'', symbol = [CHR 0xC2, CHR 0xB0] @ ''C'', factor = Fin 1, classification = ''metric''\<rparr>),
     (''fahrenheit'', \<lparr>name = ''Fahrenheit'', symbol = [CHR 0xC2, CHR 0xB0] @ ''F'', factor = Fin 1, classification = ''imperial''\<rparr>),
     (''kelvin'', \<lparr>name = ''Kelvin'', symbol = ''K'', factor = Fin 1, classification = ''scientific''\<rparr>),
     (''rankine'', \<lparr>name = ''Rankine'', symbol = [CHR 0xC2, CHR 0xB0] @ ''R'', factor = Fin 1, classification = ''scientific''\<rparr>)]"

definition area_units :: "(string \<times> unit_data) list" where
  "area_units =
    [(''squareMillimeter'', \<lparr>name = ''Square Millimeter'', symbol = ''mm'' @ [CHR 0xC2, CHR 0xB2], factor = lit (1 / 10 ^ 6), classification = ''metric''\<rparr>),
     (''squareCentimeter'', \<lparr>name = ''Square Centimeter'', symbol = ''cm'' @ [CHR 0xC2, CHR 0xB2], factor = lit (1 / 10 ^ 4), classification = ''metric''\<rparr>),
     (''squareMeter'', \<lparr>name = ''Square Meter'', symbol = ''m'' @ [CHR 0xC2, CHR 0xB2], factor = Fin 1, classification = ''metric''\<rparr>),
     (''hectare'', \<lparr>name = ''Hectare'', symbol = ''ha'', factor = Fin 10000, classification = ''metric''\<rparr>),
     (''squareKilometer'', \<lparr>name = ''Square Kilometer'', symbol = ''km'' @ [CHR 0xC2, CHR 0xB2], factor = Fin 1000000, classification = ''metric''\<rparr>),
     (''squareInch'', \<lparr>name = ''Square Inch'', symbol = ''in'' @ [CHR 0xC2, CHR 0xB2], factor = lit 0.00064516, classification = ''imperial''\<rparr>),
     (''squareFoot'', \<lparr>name = ''Square Foot'', symbol = ''ft'' @ [CHR 0xC2, CHR 0xB2], factor = lit 0.092903, classification = ''imperial''\<rparr>),
     (''squareYard'', \<lparr>name = ''Square Yard'', symbol = ''yd'' @ [CHR 0xC2, CHR 0xB2], factor = lit 0.836127, classification = ''imperial''\<rparr>),
     (''acre'', \<lparr>name = ''Acre'', symbol = ''ac'', factor = lit 4046.86, classification = ''imperial''\<rparr>),
     (''squareMile'', \<lparr>name = ''Square Mile'', symbol = ''mi'' @ [CHR 0xC2, CHR 0xB2], factor = Fin 2590000, classification = ''imperial''\<rparr>)]"

definition time_units :: "(string \<times> unit_data) list" where
  "time_units =
    [(''nanosecond'', \<lparr>name = ''Nanosecond'', symbol = ''ns'', factor = lit (1 / 10 ^ 9), classification = ''scientific''\<rparr>),
     (''microsecond'', \<lparr>name = ''Microsecond'', symbol = [CHR 0xCE, CHR 0xBC] @ ''s'', factor = lit (1 / 10 ^ 6), classification = ''scientific''\<rparr>),
     (''millisecond'', \<lparr>name = ''Millisecond'', symbol = ''ms'', factor = lit 0.001, classification = ''metric''\<rparr>),
     (''second'', \<lparr>name = ''Second'', symbol = ''s'', factor = Fin 1, classification = ''metric''\<rparr>),
     (''minute'', \<lparr>name = ''Minute'', symbol = ''min'', factor = Fin 60, classification = ''common''\<rparr>),
     (''hour'', \<lparr>name = ''Hour'', symbol = ''h'', factor = Fin 3600, classification = ''common''\<rparr>),
     (''day'', \<lparr>name = ''Day'', symbol = ''d'', factor = Fin 86400, classification = ''common''\<rparr>),
     (''week'', \<lparr>name = ''Week'', symbol = ''wk'', factor = Fin 604800, classification = ''common''\<rparr>),
     (''month'', \<lparr>name = ''Month'', symbol = ''mo'', factor = Fin 2629746, classification = ''common''\<rparr>),
     (''year'', \<lparr>name = ''Year'', symbol = ''yr'', factor = Fin 31556952, classification = ''common''\<rparr>)]"

definition speed_units :: "(string \<times> unit_data) list" where
  "speed_units =
    [(''meterPerSecond'', \<lparr>name = ''Meter per Second'', symbol = ''m/s'', factor = Fin 1, classification = ''metric''\<rparr>),
     (''kilometerPerHour'', \<lparr>name = ''Kilometer per Hour'', symbol = ''km/h'', factor = lit 0.277778, classification = ''metric''\<rparr>),
     (''milePerHour'', \<lparr>name = ''Mile per Hour'', symbol = ''mph'', factor = lit 0.44704, classification = ''imperial''\<rparr>),
     (''footPerSecond'', \<lparr>name = ''Foot per Second'', symbol = ''ft/s'', factor = lit 0.3048, classification = ''imperial''\<rparr>),
     (''knot'', \<lparr>name = ''Knot'', symbol = ''kn'', factor = lit 0.514444, classification = ''nautical''\<rparr>),
     (''mach'', \<lparr>name = ''Mach'', symbol = ''Ma'', factor = Fin 343, classification = ''scientific''\<rparr>)]"

definition energy_units :: "(string \<times> unit_data) list" where
  "energy_units =
    [(''joule'', \<lparr>name = ''Joule'', symbol = ''J'', factor = Fin 1, classification = ''metric''\<rparr>),
     (''kilojoule'', \<lparr>name = ''Kilojoule'', symbol = ''kJ'', factor = Fin 1000, classification = ''metric''\<rparr>),
     (''calorie'', \<lparr>name = ''Calorie'', symbol = ''cal'', factor = lit 4.184, classification = ''metric''\<rparr>),
     (''kilocalorie'', \<lparr>name = ''Kilocalorie'', symbol = ''kcal'', factor = Fin 4184, classification = ''metric''\<rparr>),
     (''wattHour'', \<lparr>name = ''Watt Hour'', symbol = ''Wh'', factor = Fin 3600, classification = ''electrical''\<rparr>),
     (''kilowattHour'', \<lparr>name = ''Kilowatt Hour'', symbol = ''kWh'', factor = Fin 3600000, classification = ''electrical''\<rparr>),
     (''btu'', \<lparr>name = ''British Thermal Unit'', symbol = ''BTU'', factor = lit 1055.06, classification = ''imperial''\<rparr>)]"

definition UNIT_CATEGORIES :: "(string \<times> category_data) list" where
  "UNIT_CATEGORIES =
    [(''length'',
      \<lparr>display_name = ''Length'', icon = [CHR 0xF0, CHR 0x9F, CHR 0x93, CHR 0x8F],
       baseUnit = ''meter'', units = length_units\<rparr>),
     (''weight'',
      \<lparr>display_name = ''Weight'', icon = [CHR 0xE2, CHR 0x9A, CHR 0x96, CHR 0xEF, CHR 0xB8, CHR 0x8F],
       baseUnit = ''kilogram'', units = weight_units\<rparr>),
     (''volume'',
      \<lparr>display_name = ''Volume'', icon = [CHR 0xF0, CHR 0x9F, CHR 0xA5, CHR 0xA4],
       baseUnit = ''liter'', units = volume_units\<rparr>),
     (''temperature'',
      \<lparr>display_name = ''Temperature'', icon = [CHR 0xF0, CHR 0x9F, CHR 0x8C, CHR 0xA1, CHR 0xEF, CHR 0xB8, CHR 0x8F],
       baseUnit = ''celsius'', units = temperature_units\<rparr>),
     (''area'',
      \<lparr>display_name = ''Area'', icon = [CHR 0xF0, CHR 0x9F, CHR 0x93, CHR 0x90],
       baseUnit = ''squareMeter'', units = area_units\<rparr>),
     (''time'',
      \<lparr>display_name = ''Time'', icon = [CHR 0xE2, CHR 0x8F, CHR 0xB0],
       baseUnit = ''second'', units = time_units\<rparr>),
     (''speed'',
      \<lparr>display_name = ''Speed'', icon = [CHR 0xF0, CHR 0x9F, CHR 0x8F, CHR 0x83],
       baseUnit = ''meterPerSecond'', units = speed_units\<rparr>),
     (''energy'',
      \<lparr>display_name = ''Energy'', icon = [CHR 0xE2, CHR 0x9A, CHR 0xA1],
       baseUnit = ''joule'', units = energy_units\<rparr>)]"

section \<open>The conversion engine (utils/conversionUtils.js)\<close>

text \<open>\<open>roundToPrecision(num, decimals = 10)\<close>; every call of the source uses the default.\<close>

definition roundToPrecision :: "jsnum \<Rightarrow> nat \<Rightarrow> jsnum" where
  "roundToPrecision num decimals =
     js_div (Math_round (js_mul (js_add num EPSILON) (Math_pow10 decimals))) (Math_pow10 decimals)"

definition convertTemperature :: "jsnum \<Rightarrow> string \<Rightarrow> string \<Rightarrow> js_error + jsnum" where
  "convertTemperature value fromUnit toUnit =
     (if fromUnit = toUnit then Inr value
      else
        case (if fromUnit = ''celsius'' then Inr value
              else if fromUnit = ''fahrenheit'' then
                Inr (js_div (js_mul (js_sub value (Fin 32)) (Fin 5)) (Fin 9))
              else if fromUnit = ''kelvin'' then Inr (js_sub value (lit 273.15))
              else if fromUnit = ''rankine'' then
                Inr (js_div (js_mul (js_sub value (lit 491.67)) (Fin 5)) (Fin 9))
              else Inl (Error (''Unknown temperature unit: '' @ fromUnit))) of
          Inl e \<Rightarrow> Inl e
        | Inr celsius \<Rightarrow>
            (case (if toUnit = ''celsius'' then Inr celsius
                   else if toUnit = ''fahrenheit'' then
                     Inr (js_add (js_div (js_mul celsius (Fin 9)) (Fin 5)) (Fin 32))
                   else if toUnit = ''kelvin'' then Inr (js_add celsius (lit 273.15))
                   else if toUnit = ''rankine'' then
                     Inr (js_add (js_div (js_mul celsius (Fin 9)) (Fin 5)) (lit 491.67))
                   else Inl (Error (''Unknown temperature unit: '' @ toUnit))) of
               Inl e \<Rightarrow> Inl e
             | Inr result \<Rightarrow> Inr (roundToPrecision result 10)))"

text \<open>
  \<open>data.factor\<close> and \<open>data.symbol\<close> of a truthy lookup result: an inherited member has
  neither, so the factor is \<open>undefined\<close> (\<open>NaN\<close> in arithmetic) and the symbol prints as
  \<open>undefined\<close>.
\<close>

fun factor_of :: "unit_data js_prop \<Rightarrow> jsnum" where
  "factor_of (Own u) = factor u"
| "factor_of _ = NaN"

fun symbol_of :: "unit_data js_prop \<Rightarrow> string" where
  "symbol_of (Own u) = symbol u"
| "symbol_of _ = ''undefined''"

definition unknown_unit :: "string \<Rightarrow> string \<Rightarrow> js_error" where
  "unknown_unit u category =
     Error (''Unknown unit '' @ apostrophe @ u @ apostrophe @ '' in category ''
            @ apostrophe @ category @ apostrophe)"

definition convertWithFactors :: "jsnum \<Rightarrow> string \<Rightarrow> string \<Rightarrow> string \<Rightarrow> js_error + jsnum" where
  "convertWithFactors value fromUnit toUnit category =
     (if fromUnit = toUnit then Inr value
      else
        case get_prop UNIT_CATEGORIES category of
          Absent \<Rightarrow> Inl (Error (''Unknown category: '' @ category))
        | Inherited \<Rightarrow> Inl (cannot_read fromUnit)
        | Own categoryData \<Rightarrow>
            (let fromUnitData = get_prop (units categoryData) fromUnit;
                 toUnitData = get_prop (units categoryData) toUnit
             in if fromUnitData = Absent then Inl (unknown_unit fromUnit category)
                else if toUnitData = Absent then Inl (unknown_unit toUnit category)
                else
                  (let baseValue = js_mul value (factor_of fromUnitData);
                       result = js_div baseValue (factor_of toUnitData)
                   in Inr (roundToPrecision result 10))))"

text \<open>The characters of the formula strings outside ASCII.\<close>

definition degree_sign :: string where
  "degree_sign = [CHR 0xC2, CHR 0xB0]"

definition times_sign :: string where
  "times_sign = [CHR 0xC3, CHR 0x97]"

definition formulas :: "(string \<times> string) list" where
  "formulas =
     [(''celsius-fahrenheit'', degree_sign @ ''C '' @ times_sign @ '' 9/5 + 32 = '' @ degree_sign @ ''F''),
      (''fahrenheit-celsius'', ''('' @ degree_sign @ ''F - 32) '' @ times_sign @ '' 5/9 = '' @ degree_sign @ ''C''),
      (''celsius-kelvin'', degree_sign @ ''C + 273.15 = K''),
      (''kelvin-celsius'', ''K - 273.15 = '' @ degree_sign @ ''C''),
      (''fahrenheit-kelvin'', ''('' @ degree_sign @ ''F - 32) '' @ times_sign @ '' 5/9 + 273.15 = K''),
      (''kelvin-fahrenheit'', ''(K - 273.15) '' @ times_sign @ '' 9/5 + 32 = '' @ degree_sign @ ''F''),
      (''celsius-rankine'', degree_sign @ ''C '' @ times_sign @ '' 9/5 + 491.67 = '' @ degree_sign @ ''R''),
      (''rankine-celsius'', ''('' @ degree_sign @ ''R - 491.67) '' @ times_sign @ '' 5/9 = '' @ degree_sign @ ''C''),
      (''fahrenheit-rankine'', degree_sign @ ''F + 459.67 = '' @ degree_sign @ ''R''),
      (''rankine-fahrenheit'', degree_sign @ ''R - 459.67 = '' @ degree_sign @ ''F''),
      (''kelvin-rankine'', ''K '' @ times_sign @ '' 9/5 = '' @ degree_sign @ ''R''),
      (''rankine-kelvin'', degree_sign @ ''R '' @ times_sign @ '' 5/9 = K'')]"

text \<open>
  \<open>formulas[key] || ''\<close>.  The key holds a hyphen, which no property of
  \<open>Object.prototype\<close> has in its name, so the lookup finds an own entry or nothing
  (lemma \<open>formula_key_not_inherited\<close>); every own entry is a non-empty string.
\<close>

definition getTemperatureFormula :: "string \<Rightarrow> string \<Rightarrow> string" where
  "getTemperatureFormula fromUnit toUnit =
     (case get_prop formulas (fromUnit @ ''-'' @ toUnit) of
        Own s \<Rightarrow> (if s = [] then [] else s)
      | _ \<Rightarrow> [])"

text \<open>
  \<open>getConversionFormula\<close>.  The parameter \<open>numberToString\<close> is the language's conversion
  of a Number to a string inside a template literal.
\<close>

definition getConversionFormula ::
    "(jsnum \<Rightarrow> string) \<Rightarrow> jsnum \<Rightarrow> string \<Rightarrow> string \<Rightarrow> string \<Rightarrow> js_error + string" where
  "getConversionFormula numberToString value fromUnit toUnit category =
     (case get_prop UNIT_CATEGORIES category of
        Absent \<Rightarrow> Inr []
      | Inherited \<Rightarrow> Inl (cannot_read fromUnit)
      | Own categoryData \<Rightarrow>
          (let fromUnitData = get_prop (units categoryData) fromUnit;
               toUnitData = get_prop (units categoryData) toUnit
           in if fromUnitData = Absent \<or> toUnitData = Absent then Inr []
              else if category = ''temperature'' then Inr (getTemperatureFormula fromUnit toUnit)
              else
                (let factor = js_div (factor_of fromUnitData) (factor_of toUnitData)
                 in Inr (numberToString value @ '' '' @ symbol_of fromUnitData @ '' = ''
                         @ numberToString value @ '' '' @ times_sign @ '' '' @ numberToString factor
                         @ '' = '' @ numberToString (roundToPrecision (js_mul value factor) 10)
                         @ '' '' @ symbol_of toUnitData))))"

text \<open>
  The body of the \<open>try\<close> block of \<open>convert\<close>: the thrown error, or the converted value and
  the formula.  The test \<open>typeof value !== 'number'\<close> is the case distinction on the value
  (lemma \<open>typeof_number\<close>); after the test on missing fields the three strings are present.
\<close>

definition convert_try ::
    "(jsnum \<Rightarrow> string) \<Rightarrow> js_value \<Rightarrow> string option \<Rightarrow> string option \<Rightarrow> string option
      \<Rightarrow> js_error + (jsnum \<times> string)" where
  "convert_try numberToString value fromUnit toUnit category =
     (case value of
        JSNumber n \<Rightarrow>
          if isNaN n then Inl (Error ''Value must be a valid number'')
          else if falsy fromUnit \<or> falsy toUnit \<or> falsy category then
            Inl (Error ''From unit, to unit, and category are required'')
          else
            (case (fromUnit, toUnit, category) of
               (Some f, Some t, Some c) \<Rightarrow>
                 if get_prop UNIT_CATEGORIES c = Absent then Inl (Error (''Unknown category: '' @ c))
                 else
                   (case (if c = ''temperature'' then convertTemperature n f t
                          else convertWithFactors n f t c) of
                      Inl e \<Rightarrow> Inl e
                    | Inr result \<Rightarrow>
                        (case getConversionFormula numberToString n f t c of
                           Inl e \<Rightarrow> Inl e
                         | Inr s \<Rightarrow> Inr (result, s)))
             | _ \<Rightarrow> Inl (Error ''From unit, to unit, and category are required''))
      | _ \<Rightarrow> Inl (Error ''Value must be a valid number''))"

text \<open>
  The object \<open>convert\<close> returns: \<open>success\<close> is the flag, a property the object does not
  have is \<open>None\<close>.  The parameter \<open>now\<close> is the value of \<open>new Date().toISOString()\<close>;
  the arguments \<open>value\<close>, \<open>fromUnit\<close>, \<open>toUnit\<close> and \<open>category\<close> are written \<open>v\<close>,
  \<open>f\<close>, \<open>t\<close> and \<open>c\<close>, since the record's fields have their names.
\<close>

record conversion_result =
  success :: bool
  error :: "string option"
  originalValue :: js_value
  convertedValue :: "jsnum option"
  fromUnit :: "string option"
  toUnit :: "string option"
  category :: "string option"
  formula :: "string option"
  timestamp :: string

definition convert ::
    "(jsnum \<Rightarrow> string) \<Rightarrow> string \<Rightarrow> js_value \<Rightarrow> string option \<Rightarrow> string option \<Rightarrow> string option
      \<Rightarrow> conversion_result" where
  "convert numberToString now v f t c =
     (case convert_try numberToString v f t c of
        Inr (result, s) \<Rightarrow>
          \<lparr>success = True, error = None, originalValue = v, convertedValue = Some result,
           fromUnit = f, toUnit = t, category = c, formula = Some s, timestamp = now\<rparr>
      | Inl e \<Rightarrow>
          \<lparr>success = False, error = Some (message e), originalValue = v,
           convertedValue = None, fromUnit = f, toUnit = t, category = c,
           formula = None, timestamp = now\<rparr>)"

section \<open>Reference definitions and example parameters\<close>

text \<open>
  The rounding rule as the specification words it:
  \<open>round((x + \<epsilon>) * 10^10) / 10^10\<close>, with \<open>\<epsilon>\<close> the epsilon of the numeric type.
\<close>

definition round10 :: "jsnum \<Rightarrow> jsnum" where
  "round10 x = js_div (Math_round (js_mul (js_add x EPSILON) (Fin (10 ^ 10)))) (Fin (10 ^ 10))"

text \<open>
  The two affine maps of the temperature algorithm as the specification lists them, through
  Celsius as the pivot; they are read on the four temperature units only.
\<close>

definition temperature_keys :: "string list" where
  "temperature_keys = [''celsius'', ''fahrenheit'', ''kelvin'', ''rankine'']"

definition to_celsius :: "string \<Rightarrow> jsnum \<Rightarrow> jsnum" where
  "to_celsius u v =
     (if u = ''fahrenheit'' then js_div (js_mul (js_sub v (Fin 32)) (Fin 5)) (Fin 9)
      else if u = ''kelvin'' then js_sub v (lit 273.15)
      else if u = ''rankine'' then js_div (js_mul (js_sub v (lit 491.67)) (Fin 5)) (Fin 9)
      else v)"

definition from_celsius :: "string \<Rightarrow> jsnum \<Rightarrow> jsnum" where
  "from_celsius u c =
     (if u = ''fahrenheit'' then js_add (js_div (js_mul c (Fin 9)) (Fin 5)) (Fin 32)
      else if u = ''kelvin'' then js_add c (lit 273.15)
      else if u = ''rankine'' then js_add (js_div (js_mul c (Fin 9)) (Fin 5)) (lit 491.67)
      else c)"

text \<open>
  The closed examples fix the two parameters of \<open>convert\<close>: a rendering that prints every
  Number as \<open>#\<close> (the theorems hold for every rendering, and no example reads the
  formula) and one reading of the clock.
\<close>

definition example_numberToString :: "jsnum \<Rightarrow> string" where
  "example_numberToString n = ''#''"

definition example_now :: string where
  "example_now = ''2025-07-11T17:06:35.651Z''"

section \<open>Facts about the registry and property lookup\<close>

lemmas units_defs = length_units_def weight_units_def volume_units_def temperature_units_def
  area_units_def time_units_def speed_units_def energy_units_def

lemma typeof_number: "typeof v = ''number'' \<longleftrightarrow> (\<exists>n. v = JSNumber n)"
  by (cases v) simp_all

lemma get_prop_own: "map_of obj k = Some v \<Longrightarrow> get_prop obj k = Own v"
  by (simp add: get_prop_def)

lemma category_key_nonempty: "map_of UNIT_CATEGORIES c = Some cd \<Longrightarrow> c \<noteq> []"
  by (auto simp: UNIT_CATEGORIES_def)

lemma unit_key_nonempty:
  "map_of UNIT_CATEGORIES c = Some cd \<Longrightarrow> map_of (units cd) u = Some ud \<Longrightarrow> u \<noteq> []"
  by (auto simp: UNIT_CATEGORIES_def units_defs split: if_splits)

text \<open>No key is declared twice, so the first match of \<open>map_of\<close> is the object's property.\<close>

lemma registry_keys_distinct: "distinct (map fst UNIT_CATEGORIES)"
  by (simp add: UNIT_CATEGORIES_def)

lemma unit_keys_distinct:
  "map_of UNIT_CATEGORIES c = Some cd \<Longrightarrow> distinct (map fst (units cd))"
  by (auto simp: UNIT_CATEGORIES_def units_defs split: if_splits)

lemma length_category:
  "map_of UNIT_CATEGORIES ''length'' =
     Some \<lparr>display_name = ''Length'', icon = [CHR 0xF0, CHR 0x9F, CHR 0x93, CHR 0x8F],
           baseUnit = ''meter'', units = length_units\<rparr>"
  by (simp add: UNIT_CATEGORIES_def)

lemma formula_own:
  "map_of UNIT_CATEGORIES c = Some cd \<Longrightarrow> map_of (units cd) f = Some uf \<Longrightarrow>
   map_of (units cd) t = Some ut \<Longrightarrow> \<exists>s. getConversionFormula nts v f t c = Inr s"
  by (simp add: getConversionFormula_def get_prop_own Let_def)

lemma formula_own_category:
  "map_of UNIT_CATEGORIES c = Some cd \<Longrightarrow> \<exists>s. getConversionFormula nts v f t c = Inr s"
  by (simp add: getConversionFormula_def get_prop_own Let_def)

lemma formula_no_category:
  "map_of UNIT_CATEGORIES c = None \<Longrightarrow>
   getConversionFormula nts v f t c
     = (if c \<in> set object_prototype_keys then Inl (cannot_read f) else Inr [])"
  by (simp add: getConversionFormula_def get_prop_def)

lemma temperature_category:
  "map_of UNIT_CATEGORIES ''temperature'' =
     Some \<lparr>display_name = ''Temperature'',
           icon = [CHR 0xF0, CHR 0x9F, CHR 0x8C, CHR 0xA1, CHR 0xEF, CHR 0xB8, CHR 0x8F],
           baseUnit = ''celsius'', units = temperature_units\<rparr>"
  by (simp add: UNIT_CATEGORIES_def)

lemma temperature_unit_keys:
  "u \<in> set temperature_keys \<Longrightarrow> \<exists>ud. map_of temperature_units u = Some ud"
  by (auto simp: temperature_keys_def temperature_units_def)

lemma finite_not_NaN: "is_finite v \<Longrightarrow> \<not> isNaN v"
  by (cases v) (simp_all add: isNaN_def)

lemma convert_of_try_Inr:
  "convert_try nts v f t c = Inr (x, s) \<Longrightarrow>
   convert nts now v f t c =
     \<lparr>success = True, error = None, originalValue = v, convertedValue = Some x,
      fromUnit = f, toUnit = t, category = c, formula = Some s, timestamp = now\<rparr>"
  by (simp add: convert_def)

lemma convert_of_try_Inl:
  "convert_try nts v f t c = Inl e \<Longrightarrow>
   convert nts now v f t c =
     \<lparr>success = False, error = Some (message e), originalValue = v, convertedValue = None,
      fromUnit = f, toUnit = t, category = c, formula = None, timestamp = now\<rparr>"
  by (simp add: convert_def)

section \<open>Evaluating the arithmetic\<close>

lemmas fl_eval = fl_def round64_def quantum_def ilog2_def round_half_even_def Let_def

lemma twelve_steps:
  "(12::nat) = Suc (Suc (Suc (Suc (Suc (Suc (Suc (Suc (Suc (Suc (Suc (Suc 0)))))))))))"
  by simp

lemmas js_eval = js_add_def js_sub_def js_mul_def js_div_def lit_def EPSILON_def signed_inf_def
  fl_eval twelve_steps

lemma Math_pow10_10: "Math_pow10 10 = Fin (10 ^ 10)"
  by (simp add: Math_pow10_def fl_eval twelve_steps)

text \<open>The source's rounding function, at its default precision, is the specification's rule.\<close>

lemma roundToPrecision_10: "roundToPrecision x 10 = round10 x"
  by (simp only: roundToPrecision_def round10_def Math_pow10_10)

section \<open>Rounding error of the arithmetic\<close>

text \<open>
  The bisection finds the binary exponent, so rounding to binary64 moves a real number by at
  most one part in \<open>2 ^ 53\<close>, or by \<open>1 / 2 ^ 1075\<close> on the subnormal grid.
\<close>

lemma round_half_even_error: "\<bar>of_int (round_half_even y) - y\<bar> \<le> 1 / 2"
proof -
  have "of_int \<lfloor>y\<rfloor> \<le> y" "y < of_int \<lfloor>y\<rfloor> + 1" by linarith+
  then show ?thesis
    by (auto simp: round_half_even_def Let_def)
qed

lemma ilog2_search_bounds:
  "2 powi lo \<le> r \<Longrightarrow> r < 2 powi (lo + 2 ^ k) \<Longrightarrow>
   2 powi (ilog2_search k r lo) \<le> r \<and> r < 2 powi (ilog2_search k r lo + 1)"
proof (induction k arbitrary: lo)
  case 0
  then show ?case by simp
next
  case (Suc k)
  show ?case
  proof (cases "2 powi (lo + 2 ^ k) \<le> r")
    case True
    have eq: "lo + 2 ^ Suc k = lo + 2 ^ k + 2 ^ k" by simp
    have "r < 2 powi (lo + 2 ^ k + 2 ^ k)" using Suc.prems(2) unfolding eq .
    from Suc.IH[OF True this] True show ?thesis by simp
  next
    case False
    then have "r < 2 powi (lo + 2 ^ k)" by simp
    from Suc.IH[OF Suc.prems(1) this] False show ?thesis by simp
  qed
qed

lemma ilog2_search_below: "r < 2 powi lo \<Longrightarrow> ilog2_search k r lo = lo"
proof (induction k)
  case 0
  then show ?case by simp
next
  case (Suc k)
  have "(2::real) powi lo \<le> 2 powi (lo + 2 ^ k)"
    by (rule power_int_increasing) simp_all
  with Suc show ?case by simp
qed

lemma ilog2_lower: "- 2048 < ilog2 r \<Longrightarrow> r < 2 powi 2048 \<Longrightarrow> 2 powi (ilog2 r) \<le> r"
proof -
  assume a: "- 2048 < ilog2 r" and b: "r < 2 powi 2048"
  have "\<not> r < 2 powi (- 2048)"
    using a ilog2_search_below[of r "- 2048" 12] by (auto simp: ilog2_def)
  then have lo: "2 powi (- 2048) \<le> r" by simp
  have "(- 2048 :: int) + 2 ^ 12 = 2048" by simp
  with b have hi: "r < 2 powi (- 2048 + 2 ^ 12)" by simp
  from ilog2_search_bounds[OF lo hi] show ?thesis by (simp add: ilog2_def)
qed

lemma round64_error:
  assumes "\<bar>r\<bar> < 2 powi 2048"
  shows "\<bar>round64 r - r\<bar> \<le> \<bar>r\<bar> / 2 ^ 53 + 1 / 2 ^ 1075"
proof -
  define q where "q = quantum r"
  have p: "(0::real) < 2 powi q" by simp
  have "round64 r - r = (of_int (round_half_even (r / 2 powi q)) - r / 2 powi q) * 2 powi q"
    by (simp add: round64_def q_def[symmetric] Let_def algebra_simps)
  then have "\<bar>round64 r - r\<bar> = \<bar>of_int (round_half_even (r / 2 powi q)) - r / 2 powi q\<bar> * 2 powi q"
    by (simp add: abs_mult)
  also have "\<dots> \<le> 1 / 2 * 2 powi q"
    by (intro mult_right_mono round_half_even_error) simp
  finally have e: "\<bar>round64 r - r\<bar> \<le> 2 powi q / 2" by simp
  show ?thesis
  proof (cases "q = - 1074")
    case True
    have "(2::real) powi q / 2 = 1 / 2 ^ 1075"
      unfolding True by (simp add: power_int_minus_divide)
    with e have "\<bar>round64 r - r\<bar> \<le> 1 / 2 ^ 1075" by simp
    moreover have "0 \<le> \<bar>r\<bar> / 2 ^ 53" by simp
    ultimately show ?thesis by linarith
  next
    case False
    then have q: "q = ilog2 \<bar>r\<bar> - 52" and "- 1074 < ilog2 \<bar>r\<bar> - 52"
      by (auto simp: q_def quantum_def max_def split: if_splits)
    then have "- 2048 < ilog2 \<bar>r\<bar>" by simp
    from ilog2_lower[OF this assms] have l: "2 powi (ilog2 \<bar>r\<bar>) \<le> \<bar>r\<bar>" .
    have "(2::real) powi q = 2 powi (ilog2 \<bar>r\<bar>) / 2 ^ 52"
      unfolding q by (subst power_int_diff) simp_all
    with e l have "\<bar>round64 r - r\<bar> \<le> \<bar>r\<bar> / 2 ^ 53"
      by (simp add: field_simps)
    moreover have "(0::real) \<le> 1 / 2 ^ 1075" by simp
    ultimately show ?thesis by linarith
  qed
qed

lemma round64_zero: "round64 0 = 0"
  by (simp add: round64_def round_half_even_def)

lemma fl_finite:
  assumes "\<bar>round64 r\<bar> < 2 ^ 1024"
  shows "is_finite (fl n r) \<and> mag (fl n r) = round64 r"
  using assms by (auto simp: fl_def Let_def)

lemma js_add_finite:
  assumes "is_finite a" and "is_finite b" and "\<bar>round64 (mag a + mag b)\<bar> < 2 ^ 1024"
  shows "is_finite (js_add a b) \<and> mag (js_add a b) = round64 (mag a + mag b)"
  using assms fl_finite[OF assms(3)]
  by (cases a; cases b) (simp_all add: js_add_def round64_zero)

lemma js_mul_finite:
  assumes "is_finite a" and "is_finite b" and "\<bar>round64 (mag a * mag b)\<bar> < 2 ^ 1024"
  shows "is_finite (js_mul a b) \<and> mag (js_mul a b) = round64 (mag a * mag b)"
  using assms fl_finite[OF assms(3)]
  by (cases a; cases b) (simp_all add: js_mul_def)

lemma js_div_finite:
  assumes "is_finite a" and "is_finite b" and "mag b \<noteq> 0"
    and "\<bar>round64 (mag a / mag b)\<bar> < 2 ^ 1024"
  shows "is_finite (js_div a b) \<and> mag (js_div a b) = round64 (mag a / mag b)"
  using assms fl_finite[OF assms(4)]
  by (cases a; cases b) (simp_all add: js_div_def)

lemma Math_round_finite:
  assumes "is_finite a"
  shows "is_finite (Math_round a) \<and> mag (Math_round a) = of_int \<lfloor>mag a + 1 / 2\<rfloor>"
  using assms by (cases a) (simp_all add: Let_def)

lemma abs_via_diff: "\<bar>a\<bar> \<le> \<bar>b\<bar> + \<bar>a - b\<bar>" for a b :: real
  by linarith

lemma abs_diff3: "\<bar>a - d\<bar> \<le> \<bar>a - b\<bar> + \<bar>b - c\<bar> + \<bar>c - d\<bar>" for a b c d :: real
  by linarith

lemma round64_error_small:
  assumes "\<bar>r\<bar> \<le> 2 ^ 1000"
  shows "\<bar>round64 r - r\<bar> \<le> \<bar>r\<bar> / 2 ^ 53 + 1 / 2 ^ 1075"
proof -
  have "(2::real) ^ 1000 < 2 powi 2048" by simp
  with assms have "\<bar>r\<bar> < 2 powi 2048" by linarith
  from round64_error[OF this] show ?thesis .
qed

lemma round64_magnitude:
  assumes "\<bar>r\<bar> \<le> B" and "1 \<le> B" and "B \<le> 2 ^ 1000"
  shows "\<bar>round64 r\<bar> \<le> 2 * B" and "\<bar>round64 r\<bar> < 2 ^ 1024"
proof -
  from assms have "\<bar>r\<bar> \<le> 2 ^ 1000" by linarith
  from round64_error_small[OF this] have e: "\<bar>round64 r - r\<bar> \<le> \<bar>r\<bar> / 2 ^ 53 + 1 / 2 ^ 1075" .
  have "\<bar>r\<bar> / 2 ^ 53 + 1 / 2 ^ 1075 \<le> B"
    using assms(1,2) by (simp; linarith)
  with e abs_via_diff[of "round64 r" r] assms(1) show b: "\<bar>round64 r\<bar> \<le> 2 * B"
    by linarith
  have "2 * B < 2 ^ 1024" using assms(3) by (simp; linarith)
  with b show "\<bar>round64 r\<bar> < 2 ^ 1024" by linarith
qed

text \<open>
  The rounding to ten decimals moves a finite Number by at most \<open>6 / 10 ^ 11\<close> plus four
  units of roundoff.
\<close>

lemma round10_chain:
  fixes X :: real
  assumes "d1 \<le> Z1 / 2 ^ 53 + 1 / 2 ^ 1075" and "Z1 \<le> X + 1 / 2 ^ 52" and "M1 \<le> Z1 + d1"
    and "d2 \<le> M1 * 10 ^ 10 / 2 ^ 53 + 1 / 2 ^ 1075" and "M2 \<le> M1 * 10 ^ 10 + d2"
    and "d3 \<le> 1 / 2" and "M3 \<le> M2 + d3" and "d4 \<le> M3 / 10 ^ 10 / 2 ^ 53 + 1 / 2 ^ 1075"
    and "0 \<le> X"
  shows "d4 + d3 / 10 ^ 10 + d2 / 10 ^ 10 + d1 + 1 / 2 ^ 52 \<le> 6 / 10 ^ 11 + X / 2 ^ 51"
  using assms by (simp; linarith)

lemma round10_error:
  assumes fx: "is_finite x" and bx: "\<bar>mag x\<bar> \<le> 2 ^ 900"
  shows "is_finite (round10 x) \<and> \<bar>mag (round10 x) - mag x\<bar> \<le> 6 / 10 ^ 11 + \<bar>mag x\<bar> / 2 ^ 51"
proof -
  define z1 where "z1 = mag x + 1 / 2 ^ 52"
  define m1 where "m1 = round64 z1"
  define m2 where "m2 = round64 (m1 * 10 ^ 10)"
  define m3 :: real where "m3 = of_int \<lfloor>m2 + 1 / 2\<rfloor>"
  define m4 where "m4 = round64 (m3 / 10 ^ 10)"
  have t1: "\<bar>z1\<bar> \<le> \<bar>mag x\<bar> + 1 / 2 ^ 52"
    unfolding z1_def by (simp; linarith)
  have c1: "\<bar>z1\<bar> \<le> 2 ^ 901"
    using t1 bx by (simp; linarith)
  have r1: "\<bar>m1 - z1\<bar> \<le> \<bar>z1\<bar> / 2 ^ 53 + 1 / 2 ^ 1075"
    unfolding m1_def using c1 by (intro round64_error_small) (simp; linarith)
  have n1: "(1::real) \<le> 2 ^ 901" "(2::real) ^ 901 \<le> 2 ^ 1000" by simp_all
  note g1 = round64_magnitude[OF c1 n1, folded m1_def]
  have s1: "is_finite (js_add x EPSILON) \<and> mag (js_add x EPSILON) = m1"
    using js_add_finite[OF fx, of EPSILON] g1(2)
    by (simp add: EPSILON_def m1_def z1_def)
  have a2: "\<bar>m1 * 10 ^ 10\<bar> = \<bar>m1\<bar> * 10 ^ 10"
    by (simp add: abs_mult)
  have c2: "\<bar>m1 * 10 ^ 10\<bar> \<le> 2 ^ 940"
    unfolding a2 using g1(1) by (simp; linarith)
  have r2: "\<bar>m2 - m1 * 10 ^ 10\<bar> \<le> \<bar>m1 * 10 ^ 10\<bar> / 2 ^ 53 + 1 / 2 ^ 1075"
    unfolding m2_def using c2 by (intro round64_error_small) (simp; linarith)
  have n2: "(1::real) \<le> 2 ^ 940" "(2::real) ^ 940 \<le> 2 ^ 1000" by simp_all
  note g2 = round64_magnitude[OF c2 n2, folded m2_def]
  have s2: "is_finite (js_mul (js_add x EPSILON) (Fin (10 ^ 10)))
            \<and> mag (js_mul (js_add x EPSILON) (Fin (10 ^ 10))) = m2"
    using js_mul_finite[of "js_add x EPSILON" "Fin (10 ^ 10)"] s1 g2(2)
    by (simp add: m2_def)
  have r3: "\<bar>m3 - m2\<bar> \<le> 1 / 2"
    unfolding m3_def by linarith
  have s3: "is_finite (Math_round (js_mul (js_add x EPSILON) (Fin (10 ^ 10))))
            \<and> mag (Math_round (js_mul (js_add x EPSILON) (Fin (10 ^ 10)))) = m3"
    using Math_round_finite[of "js_mul (js_add x EPSILON) (Fin (10 ^ 10))"] s2
    by (simp add: m3_def)
  have a4: "\<bar>m3 / 10 ^ 10\<bar> = \<bar>m3\<bar> / 10 ^ 10"
    by (simp add: abs_divide)
  have c3: "\<bar>m3\<bar> \<le> 2 ^ 942"
    using abs_via_diff[of m3 m2] r3 g2(1) by (simp; linarith)
  have c4: "\<bar>m3 / 10 ^ 10\<bar> \<le> 2 ^ 942"
    unfolding a4 using c3 by (simp; linarith)
  have r4: "\<bar>m4 - m3 / 10 ^ 10\<bar> \<le> \<bar>m3 / 10 ^ 10\<bar> / 2 ^ 53 + 1 / 2 ^ 1075"
    unfolding m4_def using c4 by (intro round64_error_small) (simp; linarith)
  have n4: "(1::real) \<le> 2 ^ 942" "(2::real) ^ 942 \<le> 2 ^ 1000" by simp_all
  note g4 = round64_magnitude(2)[OF c4 n4, folded m4_def]
  have s4: "is_finite (round10 x) \<and> mag (round10 x) = m4"
    using js_div_finite[of "Math_round (js_mul (js_add x EPSILON) (Fin (10 ^ 10)))" "Fin (10 ^ 10)"]
      s3 g4
    by (simp add: round10_def m4_def)
  have split: "m4 - mag x = (m4 - m3 / 10 ^ 10) + (m3 - m2) / 10 ^ 10
      + (m2 - m1 * 10 ^ 10) / 10 ^ 10 + (m1 - z1) + 1 / 2 ^ 52"
    unfolding z1_def by (simp add: field_simps)
  have tri: "\<bar>m4 - mag x\<bar> \<le> \<bar>m4 - m3 / 10 ^ 10\<bar> + \<bar>m3 - m2\<bar> / 10 ^ 10
      + \<bar>m2 - m1 * 10 ^ 10\<bar> / 10 ^ 10 + \<bar>m1 - z1\<bar> + 1 / 2 ^ 52"
  proof -
    have "\<bar>a + b + c + d + e\<bar> \<le> \<bar>a\<bar> + \<bar>b\<bar> + \<bar>c\<bar> + \<bar>d\<bar> + \<bar>e\<bar>" for a b c d e :: real
      by linarith
    from this[of "m4 - m3 / 10 ^ 10" "(m3 - m2) / 10 ^ 10" "(m2 - m1 * 10 ^ 10) / 10 ^ 10"
        "m1 - z1" "1 / 2 ^ 52"]
    show ?thesis unfolding split by (simp add: abs_divide)
  qed
  have "\<bar>m4 - m3 / 10 ^ 10\<bar> + \<bar>m3 - m2\<bar> / 10 ^ 10
      + \<bar>m2 - m1 * 10 ^ 10\<bar> / 10 ^ 10 + \<bar>m1 - z1\<bar> + 1 / 2 ^ 52
      \<le> 6 / 10 ^ 11 + \<bar>mag x\<bar> / 2 ^ 51"
  proof (rule round10_chain)
    show "\<bar>m1 - z1\<bar> \<le> \<bar>z1\<bar> / 2 ^ 53 + 1 / 2 ^ 1075" by (rule r1)
    show "\<bar>z1\<bar> \<le> \<bar>mag x\<bar> + 1 / 2 ^ 52" by (rule t1)
    show "\<bar>m1\<bar> \<le> \<bar>z1\<bar> + \<bar>m1 - z1\<bar>" by (rule abs_via_diff)
    show "\<bar>m2 - m1 * 10 ^ 10\<bar> \<le> \<bar>m1\<bar> * 10 ^ 10 / 2 ^ 53 + 1 / 2 ^ 1075"
      using r2 unfolding a2 .
    show "\<bar>m2\<bar> \<le> \<bar>m1\<bar> * 10 ^ 10 + \<bar>m2 - m1 * 10 ^ 10\<bar>"
      using abs_via_diff[of m2 "m1 * 10 ^ 10"] unfolding a2 .
    show "\<bar>m3 - m2\<bar> \<le> 1 / 2" by (rule r3)
    show "\<bar>m3\<bar> \<le> \<bar>m2\<bar> + \<bar>m3 - m2\<bar>" by (rule abs_via_diff)
    show "\<bar>m4 - m3 / 10 ^ 10\<bar> \<le> \<bar>m3\<bar> / 10 ^ 10 / 2 ^ 53 + 1 / 2 ^ 1075"
      using r4 unfolding a4 .
    show "0 \<le> \<bar>mag x\<bar>" by simp
  qed
  with tri have "\<bar>m4 - mag x\<bar> \<le> 6 / 10 ^ 11 + \<bar>mag x\<bar> / 2 ^ 51" by linarith
  with s4 show ?thesis by simp
qed

lemma conversion_chain:
  fixes S :: real
  assumes "E2 \<le> S / 2 ^ 53 + 1 / 2 ^ 1045" and "Z2 \<le> S + E2"
    and "D2 \<le> Z2 / 2 ^ 53 + 1 / 2 ^ 1075" and "M2 \<le> Z2 + D2"
    and "Dw \<le> 6 / 10 ^ 11 + M2 / 2 ^ 51" and "0 \<le> S"
  shows "Dw + D2 + E2 \<le> 7 / 10 ^ 11 + S / 2 ^ 50"
  using assms by (simp; linarith)

lemma round_trip_chain:
  fixes V :: real
  assumes "A \<le> 7 / 10 ^ 11 * T + V / 2 ^ 50" and "XA \<le> V + A"
    and "Br \<le> 7 / 10 ^ 11 + XA / 2 ^ 50" and "0 \<le> T" and "0 \<le> V"
  shows "A + Br \<le> 1 / 10 ^ 10 + T / 10 ^ 10 + V / 2 ^ 48"
  using assms by (simp; linarith)

lemma factor_positive: "1 / 2 ^ 30 \<le> f \<Longrightarrow> 0 < f" for f :: real
proof -
  assume "1 / 2 ^ 30 \<le> f"
  moreover have "(0::real) < 1 / 2 ^ 30" by simp
  ultimately show ?thesis by linarith
qed

lemma factor_inverse: "1 / 2 ^ 30 \<le> f \<Longrightarrow> 1 / f \<le> 2 ^ 30" for f :: real
  using factor_positive[of f] by (simp add: field_simps)

text \<open>One conversion by factors, and the conversion there and back.\<close>

lemma convert_value_error:
  assumes fv: "is_finite v" and bv: "\<bar>mag v\<bar> \<le> 2 ^ 800"
    and fa: "1 / 2 ^ 30 \<le> fa" "fa \<le> 2 ^ 54" and fb: "1 / 2 ^ 30 \<le> fb" "fb \<le> 2 ^ 54"
  shows "is_finite (round10 (js_div (js_mul v (Fin fa)) (Fin fb)))
       \<and> \<bar>mag (round10 (js_div (js_mul v (Fin fa)) (Fin fb))) - mag v * fa / fb\<bar>
           \<le> 7 / 10 ^ 11 + \<bar>mag v * fa / fb\<bar> / 2 ^ 50"
proof -
  have pa: "0 < fa" and pb: "0 < fb"
    using fa(1) fb(1) by (auto intro: factor_positive)
  define p where "p = mag v * fa"
  define m1 where "m1 = round64 p"
  define z2 where "z2 = m1 / fb"
  define m2 where "m2 = round64 z2"
  define s where "s = p / fb"
  define mw where "mw = mag (round10 (js_div (js_mul v (Fin fa)) (Fin fb)))"
  have "\<bar>mag v\<bar> * \<bar>fa\<bar> \<le> 2 ^ 800 * 2 ^ 54"
    using bv fa(2) pa by (intro mult_mono) simp_all
  then have c1: "\<bar>p\<bar> \<le> 2 ^ 854"
    by (simp add: p_def abs_mult)
  have n1: "(1::real) \<le> 2 ^ 854" "(2::real) ^ 854 \<le> 2 ^ 1000" by simp_all
  have r1: "\<bar>m1 - p\<bar> \<le> \<bar>p\<bar> / 2 ^ 53 + 1 / 2 ^ 1075"
    unfolding m1_def using c1 n1(2) by (intro round64_error_small) linarith
  note g1 = round64_magnitude[OF c1 n1, folded m1_def]
  have s1: "is_finite (js_mul v (Fin fa)) \<and> mag (js_mul v (Fin fa)) = m1"
    using js_mul_finite[OF fv, of "Fin fa"] g1(2) by (simp add: m1_def p_def)
  have "\<bar>m1\<bar> * (1 / fb) \<le> (2 * 2 ^ 854) * 2 ^ 30"
    using g1(1) factor_inverse[OF fb(1)] pb by (intro mult_mono) simp_all
  then have c2: "\<bar>z2\<bar> \<le> 2 ^ 885"
    using pb by (simp add: z2_def abs_divide)
  have n2: "(1::real) \<le> 2 ^ 885" "(2::real) ^ 885 \<le> 2 ^ 1000" by simp_all
  have r2: "\<bar>m2 - z2\<bar> \<le> \<bar>z2\<bar> / 2 ^ 53 + 1 / 2 ^ 1075"
    unfolding m2_def using c2 n2(2) by (intro round64_error_small) linarith
  note g2 = round64_magnitude[OF c2 n2, folded m2_def]
  have s2: "is_finite (js_div (js_mul v (Fin fa)) (Fin fb))
            \<and> mag (js_div (js_mul v (Fin fa)) (Fin fb)) = m2"
    using js_div_finite[of "js_mul v (Fin fa)" "Fin fb"] s1 g2(2) pb
    by (simp add: m2_def z2_def)
  have "\<bar>m2\<bar> \<le> 2 ^ 900"
    using g2(1) by (simp; linarith)
  with round10_error[of "js_div (js_mul v (Fin fa)) (Fin fb)"] s2
  have fw: "is_finite (round10 (js_div (js_mul v (Fin fa)) (Fin fb)))"
    and rw: "\<bar>mw - m2\<bar> \<le> 6 / 10 ^ 11 + \<bar>m2\<bar> / 2 ^ 51"
    by (simp_all add: mw_def)
  have "\<bar>z2 - s\<bar> = \<bar>m1 - p\<bar> / fb"
    using pb by (simp add: z2_def s_def diff_divide_distrib[symmetric] abs_divide)
  also have "\<dots> \<le> (\<bar>p\<bar> / 2 ^ 53 + 1 / 2 ^ 1075) / fb"
    using r1 pb by (intro divide_right_mono) simp_all
  also have "\<dots> = \<bar>s\<bar> / 2 ^ 53 + 1 / 2 ^ 1075 * (1 / fb)"
    using pb by (simp add: s_def abs_divide add_divide_distrib)
  also have "\<dots> \<le> \<bar>s\<bar> / 2 ^ 53 + 1 / 2 ^ 1075 * 2 ^ 30"
    using factor_inverse[OF fb(1)] by (intro add_left_mono mult_left_mono) simp_all
  also have "\<dots> = \<bar>s\<bar> / 2 ^ 53 + 1 / 2 ^ 1045"
    by simp
  finally have e2: "\<bar>z2 - s\<bar> \<le> \<bar>s\<bar> / 2 ^ 53 + 1 / 2 ^ 1045" .
  have "\<bar>mw - m2\<bar> + \<bar>m2 - z2\<bar> + \<bar>z2 - s\<bar> \<le> 7 / 10 ^ 11 + \<bar>s\<bar> / 2 ^ 50"
  proof (rule conversion_chain)
    show "\<bar>z2 - s\<bar> \<le> \<bar>s\<bar> / 2 ^ 53 + 1 / 2 ^ 1045" by (rule e2)
    show "\<bar>z2\<bar> \<le> \<bar>s\<bar> + \<bar>z2 - s\<bar>" by (rule abs_via_diff)
    show "\<bar>m2 - z2\<bar> \<le> \<bar>z2\<bar> / 2 ^ 53 + 1 / 2 ^ 1075" by (rule r2)
    show "\<bar>m2\<bar> \<le> \<bar>z2\<bar> + \<bar>m2 - z2\<bar>" by (rule abs_via_diff)
    show "\<bar>mw - m2\<bar> \<le> 6 / 10 ^ 11 + \<bar>m2\<bar> / 2 ^ 51" by (rule rw)
    show "0 \<le> \<bar>s\<bar>" by simp
  qed
  with abs_diff3[of mw s m2 z2] have "\<bar>mw - s\<bar> \<le> 7 / 10 ^ 11 + \<bar>s\<bar> / 2 ^ 50"
    by linarith
  with fw show ?thesis
    by (simp add: mw_def s_def p_def)
qed

lemma round_trip_error:
  assumes fv: "is_finite v" and bv: "\<bar>mag v\<bar> \<le> 2 ^ 700"
    and fa: "1 / 2 ^ 30 \<le> fa" "fa \<le> 2 ^ 54" and fb: "1 / 2 ^ 30 \<le> fb" "fb \<le> 2 ^ 54"
  shows "is_finite (round10 (js_div (js_mul (round10 (js_div (js_mul v (Fin fa)) (Fin fb)))
                                      (Fin fb)) (Fin fa)))
       \<and> \<bar>mag (round10 (js_div (js_mul (round10 (js_div (js_mul v (Fin fa)) (Fin fb)))
                                      (Fin fb)) (Fin fa))) - mag v\<bar>
           \<le> 1 / 10 ^ 10 + fb / fa / 10 ^ 10 + \<bar>mag v\<bar> / 2 ^ 48"
proof -
  have pa: "0 < fa" and pb: "0 < fb"
    using fa(1) fb(1) by (auto intro: factor_positive)
  define w where "w = round10 (js_div (js_mul v (Fin fa)) (Fin fb))"
  define s where "s = mag v * fa / fb"
  define T where "T = fb / fa"
  define X where "X = mag w * fb / fa"
  define mr where "mr = mag (round10 (js_div (js_mul w (Fin fb)) (Fin fa)))"
  have pT: "0 \<le> T" using pa pb by (simp add: T_def)
  have "\<bar>mag v\<bar> \<le> 2 ^ 800"
    using bv by (simp; linarith)
  from convert_value_error[OF fv this fa fb]
  have fw: "is_finite w" and ew: "\<bar>mag w - s\<bar> \<le> 7 / 10 ^ 11 + \<bar>s\<bar> / 2 ^ 50"
    by (simp_all add: w_def s_def)
  have "\<bar>mag v\<bar> * \<bar>fa\<bar> \<le> 2 ^ 700 * 2 ^ 54"
    using bv fa(2) pa by (intro mult_mono) simp_all
  then have "\<bar>mag v * fa\<bar> * (1 / fb) \<le> (2 ^ 700 * 2 ^ 54) * 2 ^ 30"
    using factor_inverse[OF fb(1)] pb by (intro mult_mono) (simp_all add: abs_mult)
  then have cs: "\<bar>s\<bar> \<le> 2 ^ 784"
    using pb by (simp add: s_def abs_divide abs_mult)
  have bw: "\<bar>mag w\<bar> \<le> 2 ^ 800"
    using abs_via_diff[of "mag w" s] ew cs by (simp; linarith)
  from convert_value_error[OF fw bw fb fa]
  have fr: "is_finite (round10 (js_div (js_mul w (Fin fb)) (Fin fa)))"
    and er: "\<bar>mr - X\<bar> \<le> 7 / 10 ^ 11 + \<bar>X\<bar> / 2 ^ 50"
    by (simp_all add: mr_def X_def)
  have sT: "s * T = mag v"
    using pa pb by (simp add: s_def T_def)
  have "X - mag v = (mag w - s) * T"
    using pa pb by (simp add: X_def s_def T_def field_simps)
  then have "\<bar>X - mag v\<bar> = \<bar>mag w - s\<bar> * T"
    using pT by (simp add: abs_mult)
  also have "\<dots> \<le> (7 / 10 ^ 11 + \<bar>s\<bar> / 2 ^ 50) * T"
    using ew pT by (intro mult_right_mono)
  also have "\<dots> = 7 / 10 ^ 11 * T + \<bar>s * T\<bar> / 2 ^ 50"
    using pT by (simp add: abs_mult algebra_simps)
  finally have a: "\<bar>X - mag v\<bar> \<le> 7 / 10 ^ 11 * T + \<bar>mag v\<bar> / 2 ^ 50"
    unfolding sT .
  have "\<bar>X - mag v\<bar> + \<bar>mr - X\<bar> \<le> 1 / 10 ^ 10 + T / 10 ^ 10 + \<bar>mag v\<bar> / 2 ^ 48"
  proof (rule round_trip_chain)
    show "\<bar>X - mag v\<bar> \<le> 7 / 10 ^ 11 * T + \<bar>mag v\<bar> / 2 ^ 50" by (rule a)
    show "\<bar>X\<bar> \<le> \<bar>mag v\<bar> + \<bar>X - mag v\<bar>" by (rule abs_via_diff)
    show "\<bar>mr - X\<bar> \<le> 7 / 10 ^ 11 + \<bar>X\<bar> / 2 ^ 50" by (rule er)
    show "0 \<le> T" by (rule pT)
    show "0 \<le> \<bar>mag v\<bar>" by simp
  qed
  then have "\<bar>mr - mag v\<bar> \<le> 1 / 10 ^ 10 + T / 10 ^ 10 + \<bar>mag v\<bar> / 2 ^ 48"
    by linarith
  with fr show ?thesis
    by (simp add: mr_def w_def T_def)
qed

lemma lit_range:
  assumes "1 / 10 ^ 9 \<le> r" and "r \<le> 2 ^ 53 + 2 ^ 52"
  shows "\<exists>x. lit r = Fin x \<and> 1 / 2 ^ 30 \<le> x \<and> x \<le> 2 ^ 54"
proof -
  have p: "0 < r"
  proof -
    have "(0::real) < 1 / 10 ^ 9" by simp
    with assms(1) show ?thesis by linarith
  qed
  then have a: "\<bar>r\<bar> = r" by simp
  have "\<bar>r\<bar> \<le> 2 ^ 1000"
    unfolding a using assms(2) by (simp; linarith)
  from round64_error_small[OF this] have e: "\<bar>round64 r - r\<bar> \<le> r / 2 ^ 53 + 1 / 2 ^ 1075"
    unfolding a .
  then have e1: "round64 r - r \<le> r / 2 ^ 53 + 1 / 2 ^ 1075"
    and e2: "r - round64 r \<le> r / 2 ^ 53 + 1 / 2 ^ 1075" by linarith+
  have lo: "1 / 2 ^ 30 \<le> round64 r"
    using e2 assms(1) by (simp; linarith)
  have hi: "round64 r \<le> 2 ^ 54"
    using e1 assms(2) by (simp; linarith)
  have "round64 r \<noteq> 0" "\<not> 2 ^ 1024 \<le> round64 r" "\<not> round64 r \<le> - (2 ^ 1024)"
    using lo hi by (simp_all; linarith)+
  then have "lit r = Fin (round64 r)"
    by (simp add: lit_def fl_def Let_def)
  with lo hi show ?thesis by blast
qed

section \<open>The value of a successful conversion\<close>

lemma registry_factor_cases:
  fixes P :: "jsnum \<Rightarrow> bool"
  assumes lit: "\<And>r. 1 / 10 ^ 9 \<le> r \<Longrightarrow> r \<le> 2 ^ 53 + 2 ^ 52 \<Longrightarrow> P (lit r)"
    and fin: "\<And>n. 1 \<le> n \<Longrightarrow> n \<le> 2 ^ 54 \<Longrightarrow> P (Fin n)"
    and c: "c \<noteq> ''temperature''" "map_of UNIT_CATEGORIES c = Some cd"
    and a: "map_of (units cd) a = Some ua"
  shows "P (factor ua)"
proof -
  have all: "\<forall>(k, u) \<in> set length_units. P (factor u)"
    "\<forall>(k, u) \<in> set weight_units. P (factor u)"
    "\<forall>(k, u) \<in> set volume_units. P (factor u)"
    "\<forall>(k, u) \<in> set area_units. P (factor u)"
    "\<forall>(k, u) \<in> set time_units. P (factor u)"
    "\<forall>(k, u) \<in> set speed_units. P (factor u)"
    "\<forall>(k, u) \<in> set energy_units. P (factor u)"
    by (simp_all add: units_defs lit fin)
  from c have "units cd \<in> {length_units, weight_units, volume_units, area_units, time_units,
      speed_units, energy_units}"
    by (auto simp: UNIT_CATEGORIES_def split: if_splits)
  moreover from a have "(a, ua) \<in> set (units cd)" by (rule map_of_SomeD)
  ultimately show ?thesis using all by auto
qed

lemma registry_factor_range:
  assumes "c \<noteq> ''temperature''" and "map_of UNIT_CATEGORIES c = Some cd"
    and "map_of (units cd) a = Some ua"
  shows "\<exists>x. factor ua = Fin x \<and> 1 / 2 ^ 30 \<le> x \<and> x \<le> 2 ^ 54"
proof (rule registry_factor_cases[OF _ _ assms])
  show "\<exists>x. lit r = Fin x \<and> 1 / 2 ^ 30 \<le> x \<and> x \<le> 2 ^ 54"
    if "1 / 10 ^ 9 \<le> r" and "r \<le> 2 ^ 53 + 2 ^ 52" for r
    using that by (rule lit_range)
  show "\<exists>x. Fin n = Fin x \<and> 1 / 2 ^ 30 \<le> x \<and> x \<le> 2 ^ 54"
    if "1 \<le> n" and "n \<le> 2 ^ 54" for n
  proof -
    have "(1::real) / 2 ^ 30 \<le> 1" by simp
    with that show ?thesis by (intro exI[of _ n]) (simp; linarith)
  qed
qed

lemma convert_linear_value:
  assumes "c \<noteq> ''temperature''" and "map_of UNIT_CATEGORIES c = Some cd"
    and "map_of (units cd) f = Some uf" and "map_of (units cd) t = Some ut"
    and "f \<noteq> t" and "is_finite v"
  shows "convertedValue (convert nts now (JSNumber v) (Some f) (Some t) (Some c))
           = Some (round10 (js_div (js_mul v (factor uf)) (factor ut)))"
proof -
  from assms(6) have nn: "\<not> isNaN v" by (rule finite_not_NaN)
  from assms(2,3,4) have ne: "f \<noteq> []" "t \<noteq> []" "c \<noteq> []"
    by (auto dest: unit_key_nonempty category_key_nonempty)
  from formula_own[OF assms(2,3,4)] obtain s
    where s: "getConversionFormula nts v f t c = Inr s"
    by blast
  have w: "convertWithFactors v f t c
             = Inr (round10 (js_div (js_mul v (factor uf)) (factor ut)))"
    using assms(2,3,4,5)
    by (simp add: convertWithFactors_def get_prop_own roundToPrecision_10)
  have "convert_try nts (JSNumber v) (Some f) (Some t) (Some c)
          = Inr (round10 (js_div (js_mul v (factor uf)) (factor ut)), s)"
    using nn ne s w assms(1,2)
    by (simp add: convert_try_def get_prop_own)
  then show ?thesis by (simp add: convert_of_try_Inr)
qed

lemma convert_same_value:
  assumes "map_of UNIT_CATEGORIES c = Some cd" and "u \<noteq> []" and "is_finite v"
  shows "convertedValue (convert nts now (JSNumber v) (Some u) (Some u) (Some c)) = Some v"
proof -
  from assms have nn: "\<not> isNaN v" and ne: "c \<noteq> []"
    by (auto dest: finite_not_NaN category_key_nonempty)
  from assms(1) formula_own_category obtain s
    where s: "getConversionFormula nts v u u c = Inr s"
    by blast
  have "convert_try nts (JSNumber v) (Some u) (Some u) (Some c) = Inr (v, s)"
    using nn ne s assms(1,2)
    by (cases "c = ''temperature''")
      (simp_all add: convert_try_def get_prop_own convertTemperature_def convertWithFactors_def)
  then show ?thesis by (simp add: convert_of_try_Inr)
qed

section \<open>Linear-factor conversions\<close>

text \<open>
  Claim C1.  For every category of the registry other than temperature, every two distinct
  unit keys \<open>f\<close> and \<open>t\<close> of that category and every finite Number \<open>v\<close>,
  \<open>convert(v, f, t, c)\<close> succeeds and its \<open>convertedValue\<close> is
  \<open>round10((v * factor(f)) / factor(t))\<close>, with the factors of the registry and
  \<open>round10(x) = round((x + \<epsilon>) * 10^10) / 10^10\<close>.
\<close>

theorem convert_linear:
  assumes "c \<noteq> ''temperature''" and "map_of UNIT_CATEGORIES c = Some cd"
    and "map_of (units cd) f = Some uf" and "map_of (units cd) t = Some ut"
    and "f \<noteq> t" and "is_finite v"
  shows "success (convert numberToString now (JSNumber v) (Some f) (Some t) (Some c))
       \<and> convertedValue (convert numberToString now (JSNumber v) (Some f) (Some t) (Some c))
           = Some (round10 (js_div (js_mul v (factor uf)) (factor ut)))"
proof -
  from assms(6) have nn: "\<not> isNaN v" by (rule finite_not_NaN)
  from assms(2,3,4) have ne: "f \<noteq> []" "t \<noteq> []" "c \<noteq> []"
    by (auto dest: unit_key_nonempty category_key_nonempty)
  from formula_own[OF assms(2,3,4)] obtain s
    where s: "getConversionFormula numberToString v f t c = Inr s"
    by blast
  have w: "convertWithFactors v f t c
             = Inr (round10 (js_div (js_mul v (factor uf)) (factor ut)))"
    using assms(2,3,4,5)
    by (simp add: convertWithFactors_def get_prop_own roundToPrecision_10)
  have "convert_try numberToString (JSNumber v) (Some f) (Some t) (Some c)
          = Inr (round10 (js_div (js_mul v (factor uf)) (factor ut)), s)"
    using nn ne s w assms(1,2)
    by (simp add: convert_try_def get_prop_own)
  then show ?thesis by (simp add: convert_def)
qed

text \<open>One metre is a hundred centimetres, as the repository's own test expects.\<close>

theorem convert_linear_witness:
  "''length'' \<noteq> ''temperature''
   \<and> map_of UNIT_CATEGORIES ''length'' =
     Some \<lparr>display_name = ''Length'', icon = [CHR 0xF0, CHR 0x9F, CHR 0x93, CHR 0x8F],
           baseUnit = ''meter'', units = length_units\<rparr>
   \<and> map_of length_units ''meter'' =
     Some \<lparr>name = ''Meter'', symbol = ''m'', factor = Fin 1, classification = ''metric''\<rparr>
   \<and> map_of length_units ''centimeter'' =
     Some \<lparr>name = ''Centimeter'', symbol = ''cm'', factor = lit 0.01, classification = ''metric''\<rparr>
   \<and> ''meter'' \<noteq> ''centimeter'' \<and> is_finite (Fin 1)
   \<and> success (convert example_numberToString example_now (JSNumber (Fin 1))
        (Some ''meter'') (Some ''centimeter'') (Some ''length''))
   \<and> convertedValue (convert example_numberToString example_now (JSNumber (Fin 1))
        (Some ''meter'') (Some ''centimeter'') (Some ''length'')) = Some (Fin 100)"
proof -
  have c: "''length'' \<noteq> ''temperature''" by simp
  have m: "map_of (units \<lparr>display_name = ''Length'', icon = [CHR 0xF0, CHR 0x9F, CHR 0x93, CHR 0x8F],
           baseUnit = ''meter'', units = length_units\<rparr>) ''meter'' =
     Some \<lparr>name = ''Meter'', symbol = ''m'', factor = Fin 1, classification = ''metric''\<rparr>"
    by (simp add: length_units_def)
  have cm: "map_of (units \<lparr>display_name = ''Length'', icon = [CHR 0xF0, CHR 0x9F, CHR 0x93, CHR 0x8F],
           baseUnit = ''meter'', units = length_units\<rparr>) ''centimeter'' =
     Some \<lparr>name = ''Centimeter'', symbol = ''cm'', factor = lit 0.01, classification = ''metric''\<rparr>"
    by (simp add: length_units_def)
  have d: "''meter'' \<noteq> ''centimeter''" by simp
  have f: "is_finite (Fin 1)" by simp
  have v: "round10 (js_div (js_mul (Fin 1) (Fin 1)) (lit 0.01)) = Fin 100"
    by (simp add: round10_def js_eval)
  show ?thesis
    using convert_linear[OF c length_category m cm d f, of example_numberToString example_now]
      length_category m cm v
    by simp
qed

section \<open>Temperature conversions\<close>

lemma convertTemperature_affine:
  assumes "f \<in> set temperature_keys" and "t \<in> set temperature_keys" and "f \<noteq> t"
  shows "convertTemperature v f t = Inr (round10 (from_celsius t (to_celsius f v)))"
  using assms
  by (auto simp: temperature_keys_def convertTemperature_def to_celsius_def from_celsius_def
      roundToPrecision_10)

lemma convert_try_temperature:
  assumes "f \<in> set temperature_keys" and "t \<in> set temperature_keys" and "\<not> isNaN v"
  shows "\<exists>s. convert_try nts (JSNumber v) (Some f) (Some t) (Some ''temperature'')
           = (case convertTemperature v f t of Inl e \<Rightarrow> Inl e | Inr x \<Rightarrow> Inr (x, s))"
proof -
  from assms(1,2) obtain uf ut
    where u: "map_of temperature_units f = Some uf" "map_of temperature_units t = Some ut"
    by (meson temperature_unit_keys)
  have ne: "f \<noteq> []" "t \<noteq> []"
    using assms(1,2) by (auto simp: temperature_keys_def)
  from formula_own[OF temperature_category, of f uf t ut nts v] u obtain s
    where s: "getConversionFormula nts v f t ''temperature'' = Inr s"
    by auto
  show ?thesis
    using assms(3) ne s temperature_category
    by (intro exI[of _ s]) (simp add: convert_try_def get_prop_own split: sum.splits)
qed

text \<open>
  Claim C2.  For every two distinct temperature unit keys \<open>f\<close> and \<open>t\<close> and every finite
  Number \<open>v\<close>, \<open>convert(v, f, t, temperature)\<close> succeeds and its \<open>convertedValue\<close> is the
  Celsius-to-target map applied to the source-to-Celsius map of \<open>v\<close>, rounded to ten
  decimals.  In particular 0 \<open>\<degree>C\<close> is 32 \<open>\<degree>F\<close>, 100 \<open>\<degree>C\<close> is 212 \<open>\<degree>F\<close>,
  -40 \<open>\<degree>C\<close> is -40 \<open>\<degree>F\<close> and 0 \<open>\<degree>C\<close> is 273.15 K.
\<close>

theorem convert_temperature:
  "(f \<in> set temperature_keys \<and> t \<in> set temperature_keys \<and> f \<noteq> t \<and> is_finite v \<longrightarrow>
      success (convert numberToString now (JSNumber v) (Some f) (Some t) (Some ''temperature''))
      \<and> convertedValue (convert numberToString now (JSNumber v) (Some f) (Some t) (Some ''temperature''))
          = Some (round10 (from_celsius t (to_celsius f v))))
   \<and> convertedValue (convert numberToString now (JSNumber (Fin 0))
        (Some ''celsius'') (Some ''fahrenheit'') (Some ''temperature'')) = Some (Fin 32)
   \<and> convertedValue (convert numberToString now (JSNumber (Fin 100))
        (Some ''celsius'') (Some ''fahrenheit'') (Some ''temperature'')) = Some (Fin 212)
   \<and> convertedValue (convert numberToString now (JSNumber (Fin (- 40)))
        (Some ''celsius'') (Some ''fahrenheit'') (Some ''temperature'')) = Some (Fin (- 40))
   \<and> convertedValue (convert numberToString now (JSNumber (Fin 0))
        (Some ''celsius'') (Some ''kelvin'') (Some ''temperature'')) = Some (lit 273.15)"
proof -
  have general:
    "success (convert numberToString now (JSNumber x) (Some a) (Some b) (Some ''temperature''))
     \<and> convertedValue (convert numberToString now (JSNumber x) (Some a) (Some b) (Some ''temperature''))
         = Some (round10 (from_celsius b (to_celsius a x)))"
    if h: "a \<in> set temperature_keys" "b \<in> set temperature_keys" "a \<noteq> b" "is_finite x"
    for a b x
  proof -
    from convert_try_temperature[OF h(1,2) finite_not_NaN[OF h(4)], of numberToString]
    obtain s where "convert_try numberToString (JSNumber x) (Some a) (Some b) (Some ''temperature'')
        = Inr (round10 (from_celsius b (to_celsius a x)), s)"
      by (auto simp: convertTemperature_affine[OF h(1,2,3)])
    then show ?thesis by (simp add: convert_of_try_Inr)
  qed
  have cf: "''celsius'' \<in> set temperature_keys" "''fahrenheit'' \<in> set temperature_keys"
    "''kelvin'' \<in> set temperature_keys" "''celsius'' \<noteq> ''fahrenheit''" "''celsius'' \<noteq> ''kelvin''"
    by (simp_all add: temperature_keys_def)
  have v0: "round10 (from_celsius ''fahrenheit'' (to_celsius ''celsius'' (Fin 0))) = Fin 32"
    by (simp add: from_celsius_def to_celsius_def round10_def js_eval)
  have v100: "round10 (from_celsius ''fahrenheit'' (to_celsius ''celsius'' (Fin 100))) = Fin 212"
    by (simp add: from_celsius_def to_celsius_def round10_def js_eval)
  have v40: "round10 (from_celsius ''fahrenheit'' (to_celsius ''celsius'' (Fin (- 40)))) = Fin (- 40)"
    by (simp add: from_celsius_def to_celsius_def round10_def js_eval)
  have vk: "round10 (from_celsius ''kelvin'' (to_celsius ''celsius'' (Fin 0))) = lit 273.15"
    by (simp add: from_celsius_def to_celsius_def round10_def js_eval)
  show ?thesis
    using general[OF cf(1,2,4), of "Fin 0"] general[OF cf(1,2,4), of "Fin 100"]
      general[OF cf(1,2,4), of "Fin (- 40)"] general[OF cf(1,3,5), of "Fin 0"]
      general v0 v100 v40 vk
    by simp
qed

text \<open>Body temperature: 98.6 \<open>\<degree>F\<close> converts to exactly 37 \<open>\<degree>C\<close>.\<close>

theorem convert_temperature_witness:
  "''fahrenheit'' \<in> set temperature_keys \<and> ''celsius'' \<in> set temperature_keys
   \<and> ''fahrenheit'' \<noteq> ''celsius'' \<and> is_finite (lit 98.6)
   \<and> success (convert example_numberToString example_now (JSNumber (lit 98.6))
        (Some ''fahrenheit'') (Some ''celsius'') (Some ''temperature''))
   \<and> convertedValue (convert example_numberToString example_now (JSNumber (lit 98.6))
        (Some ''fahrenheit'') (Some ''celsius'') (Some ''temperature'')) = Some (Fin 37)"
proof -
  have k: "''fahrenheit'' \<in> set temperature_keys" "''celsius'' \<in> set temperature_keys"
    "''fahrenheit'' \<noteq> ''celsius''"
    by (simp_all add: temperature_keys_def)
  have l: "lit 98.6 = Fin (3469179087958835 / 35184372088832)"
    by (simp add: js_eval)
  have f: "is_finite (lit 98.6)"
    unfolding l by simp
  have v: "round10 (from_celsius ''celsius'' (to_celsius ''fahrenheit'' (lit 98.6))) = Fin 37"
    unfolding l by (simp add: from_celsius_def to_celsius_def round10_def js_eval)
  show ?thesis
    using convert_temperature[of "''fahrenheit''" "''celsius''" "lit 98.6"
        example_numberToString example_now] k f v
    by simp
qed

section \<open>Same-unit conversions\<close>

text \<open>
  Claim C3.  For every category of the registry, every unit key \<open>u\<close> of that category and
  every finite Number \<open>v\<close>, \<open>convert(v, u, u, c)\<close> succeeds and its \<open>convertedValue\<close> is
  \<open>v\<close> itself, unrounded, in the temperature category as in the linear ones.
\<close>

theorem convert_same_unit:
  assumes "map_of UNIT_CATEGORIES c = Some cd" and "map_of (units cd) u = Some ud"
    and "is_finite v"
  shows "success (convert numberToString now (JSNumber v) (Some u) (Some u) (Some c))
       \<and> convertedValue (convert numberToString now (JSNumber v) (Some u) (Some u) (Some c)) = Some v"
proof -
  from assms(3) have nn: "\<not> isNaN v" by (cases v) (simp_all add: isNaN_def)
  from assms(1,2) have ne: "u \<noteq> []" "c \<noteq> []"
    by (auto dest: unit_key_nonempty category_key_nonempty)
  from formula_own[OF assms(1,2,2)] obtain s
    where s: "getConversionFormula numberToString v u u c = Inr s"
    by blast
  have "convert_try numberToString (JSNumber v) (Some u) (Some u) (Some c) = Inr (v, s)"
    using nn ne s assms(1)
    by (cases "c = ''temperature''")
      (simp_all add: convert_try_def get_prop_own convertTemperature_def convertWithFactors_def)
  then show ?thesis by (simp add: convert_def)
qed

theorem convert_same_unit_witness:
  "map_of UNIT_CATEGORIES ''length'' =
     Some \<lparr>display_name = ''Length'', icon = [CHR 0xF0, CHR 0x9F, CHR 0x93, CHR 0x8F],
           baseUnit = ''meter'', units = length_units\<rparr>
   \<and> map_of length_units ''foot'' =
     Some \<lparr>name = ''Foot'', symbol = ''ft'', factor = lit 0.3048, classification = ''imperial''\<rparr>
   \<and> is_finite (Fin 5)
   \<and> success (convert example_numberToString example_now (JSNumber (Fin 5))
        (Some ''foot'') (Some ''foot'') (Some ''length''))
   \<and> convertedValue (convert example_numberToString example_now (JSNumber (Fin 5))
        (Some ''foot'') (Some ''foot'') (Some ''length'')) = Some (Fin 5)"
proof -
  have u: "map_of (units \<lparr>display_name = ''Length'', icon = [CHR 0xF0, CHR 0x9F, CHR 0x93, CHR 0x8F],
           baseUnit = ''meter'', units = length_units\<rparr>) ''foot'' =
     Some \<lparr>name = ''Foot'', symbol = ''ft'', factor = lit 0.3048, classification = ''imperial''\<rparr>"
    by (simp add: length_units_def)
  have f: "is_finite (Fin 5)" by simp
  show ?thesis
    using convert_same_unit[OF length_category u f, of example_numberToString example_now]
      length_category u
    by simp
qed

section \<open>Round trips\<close>

text \<open>
  Claim C4, as amended.  For every category other than temperature, every two unit keys
  \<open>a\<close> and \<open>b\<close> of it and every finite Number \<open>v\<close> with \<open>\<bar>v\<bar> \<le> 10 ^ 200\<close>, converting
  \<open>v\<close> from \<open>a\<close> to \<open>b\<close> and the result back from \<open>b\<close> to \<open>a\<close> succeeds twice and gives a
  finite Number \<open>r\<close> with
  \<open>\<bar>r - v\<bar> \<le> (1 + factor(b) / factor(a)) / 10 ^ 10 + \<bar>v\<bar> / 2 ^ 48\<close>:
  the rounding of the intermediate value to ten decimals is magnified by the ratio of the
  two factors, and the second term bounds the roundoff of the arithmetic.
\<close>

theorem convert_round_trip:
  assumes "c \<noteq> ''temperature''" and "map_of UNIT_CATEGORIES c = Some cd"
    and "map_of (units cd) a = Some ua" and "map_of (units cd) b = Some ub"
    and "is_finite v" and "\<bar>mag v\<bar> \<le> 10 ^ 200"
  shows "\<exists>w r.
      convertedValue (convert numberToString now (JSNumber v) (Some a) (Some b) (Some c)) = Some w
    \<and> convertedValue (convert numberToString now (JSNumber w) (Some b) (Some a) (Some c)) = Some r
    \<and> is_finite r
    \<and> \<bar>mag r - mag v\<bar>
        \<le> (1 + mag (factor ub) / mag (factor ua)) / 10 ^ 10 + \<bar>mag v\<bar> / 2 ^ 48"
proof -
  from registry_factor_range[OF assms(1,2,3)] obtain fa
    where fa: "factor ua = Fin fa" "1 / 2 ^ 30 \<le> fa" "fa \<le> 2 ^ 54" by blast
  from registry_factor_range[OF assms(1,2,4)] obtain fb
    where fb: "factor ub = Fin fb" "1 / 2 ^ 30 \<le> fb" "fb \<le> 2 ^ 54" by blast
  have pos: "0 < fa" "0 < fb"
    using fa(2) fb(2) by (auto intro: factor_positive)
  show ?thesis
  proof (cases "a = b")
    case True
    from assms(2,3) have ne: "a \<noteq> []" by (rule unit_key_nonempty)
    have same: "convertedValue (convert numberToString now (JSNumber v) (Some a) (Some b) (Some c)) = Some v"
      "convertedValue (convert numberToString now (JSNumber v) (Some b) (Some a) (Some c)) = Some v"
      using convert_same_value[OF assms(2) ne assms(5)] True by simp_all
    have "0 \<le> (1 + fb / fa) / 10 ^ 10" "0 \<le> \<bar>mag v\<bar> / 2 ^ 48"
      using pos by simp_all
    then have "\<bar>mag v - mag v\<bar> \<le> (1 + fb / fa) / 10 ^ 10 + \<bar>mag v\<bar> / 2 ^ 48"
      by simp
    with same assms(5) show ?thesis
      unfolding fa(1) fb(1) by (intro exI[of _ v]) simp
  next
    case False
    define w where "w = round10 (js_div (js_mul v (Fin fa)) (Fin fb))"
    define r where "r = round10 (js_div (js_mul w (Fin fb)) (Fin fa))"
    have "(10::real) ^ 200 \<le> 2 ^ 700" by simp
    with assms(6) have bv: "\<bar>mag v\<bar> \<le> 2 ^ 700" by linarith
    have "(2::real) ^ 700 \<le> 2 ^ 800" by simp
    with bv have "\<bar>mag v\<bar> \<le> 2 ^ 800" by linarith
    from convert_value_error[OF assms(5) this fa(2,3) fb(2,3)]
    have fw: "is_finite w" by (simp add: w_def)
    from round_trip_error[OF assms(5) bv fa(2,3) fb(2,3)]
    have fr: "is_finite r"
      and er: "\<bar>mag r - mag v\<bar> \<le> 1 / 10 ^ 10 + fb / fa / 10 ^ 10 + \<bar>mag v\<bar> / 2 ^ 48"
      by (simp_all add: r_def w_def)
    have fwd: "convertedValue (convert numberToString now (JSNumber v) (Some a) (Some b) (Some c)) = Some w"
      using convert_linear_value[OF assms(1,2,3,4) False assms(5)]
      by (simp add: w_def fa(1) fb(1))
    have bwd: "convertedValue (convert numberToString now (JSNumber w) (Some b) (Some a) (Some c)) = Some r"
      using convert_linear_value[OF assms(1,2,4,3) False[symmetric] fw]
      by (simp add: r_def fa(1) fb(1))
    have eq: "(1 + fb / fa) / 10 ^ 10 = 1 / 10 ^ 10 + fb / fa / 10 ^ 10"
      by (simp add: add_divide_distrib)
    have "\<bar>mag r - mag v\<bar> \<le> (1 + fb / fa) / 10 ^ 10 + \<bar>mag v\<bar> / 2 ^ 48"
      unfolding eq by (rule er)
    with fwd bwd fr show ?thesis
      unfolding fa(1) fb(1) by (intro exI[of _ w] exI[of _ r]) simp
  qed
qed

text \<open>The round trip of one mile through kilometres.\<close>

theorem convert_round_trip_witness:
  "''length'' \<noteq> ''temperature''
   \<and> map_of UNIT_CATEGORIES ''length'' =
     Some \<lparr>display_name = ''Length'', icon = [CHR 0xF0, CHR 0x9F, CHR 0x93, CHR 0x8F],
           baseUnit = ''meter'', units = length_units\<rparr>
   \<and> map_of length_units ''mile'' =
     Some \<lparr>name = ''Mile'', symbol = ''mi'', factor = lit 1609.344, classification = ''imperial''\<rparr>
   \<and> map_of length_units ''kilometer'' =
     Some \<lparr>name = ''Kilometer'', symbol = ''km'', factor = Fin 1000, classification = ''metric''\<rparr>
   \<and> is_finite (Fin 1) \<and> \<bar>mag (Fin 1)\<bar> \<le> 10 ^ 200
   \<and> (\<exists>w r.
      convertedValue (convert example_numberToString example_now (JSNumber (Fin 1))
        (Some ''mile'') (Some ''kilometer'') (Some ''length'')) = Some w
    \<and> convertedValue (convert example_numberToString example_now (JSNumber w)
        (Some ''kilometer'') (Some ''mile'') (Some ''length'')) = Some r
    \<and> is_finite r
    \<and> \<bar>mag r - mag (Fin 1)\<bar>
        \<le> (1 + mag (factor \<lparr>name = ''Kilometer'', symbol = ''km'', factor = Fin 1000,
                              classification = ''metric''\<rparr>)
                / mag (factor \<lparr>name = ''Mile'', symbol = ''mi'', factor = lit 1609.344,
                                classification = ''imperial''\<rparr>)) / 10 ^ 10
          + \<bar>mag (Fin 1)\<bar> / 2 ^ 48)"
proof -
  have c: "''length'' \<noteq> ''temperature''" by simp
  have mi: "map_of (units \<lparr>display_name = ''Length'', icon = [CHR 0xF0, CHR 0x9F, CHR 0x93, CHR 0x8F],
           baseUnit = ''meter'', units = length_units\<rparr>) ''mile'' =
     Some \<lparr>name = ''Mile'', symbol = ''mi'', factor = lit 1609.344, classification = ''imperial''\<rparr>"
    by (simp add: length_units_def)
  have km: "map_of (units \<lparr>display_name = ''Length'', icon = [CHR 0xF0, CHR 0x9F, CHR 0x93, CHR 0x8F],
           baseUnit = ''meter'', units = length_units\<rparr>) ''kilometer'' =
     Some \<lparr>name = ''Kilometer'', symbol = ''km'', factor = Fin 1000, classification = ''metric''\<rparr>"
    by (simp add: length_units_def)
  have f: "is_finite (Fin 1)" by simp
  have b: "\<bar>mag (Fin 1)\<bar> \<le> 10 ^ 200" by simp
  from mi km have mi': "map_of length_units ''mile'' =
     Some \<lparr>name = ''Mile'', symbol = ''mi'', factor = lit 1609.344, classification = ''imperial''\<rparr>"
    and km': "map_of length_units ''kilometer'' =
     Some \<lparr>name = ''Kilometer'', symbol = ''km'', factor = Fin 1000, classification = ''metric''\<rparr>"
    by simp_all
  show ?thesis
    by (intro conjI c length_category mi' km' f b
        convert_round_trip[OF c length_category mi km f b, of example_numberToString example_now])
qed

text \<open>
  The claim as stated, a round trip within the ten-decimal tolerance of \<open>v\<close>, fails: one
  second in years is rounded to \<open>0.0000000317\<close>, and that many years are
  \<open>1.0003553784\<close> seconds.
\<close>

theorem convert_round_trip_second_year:
  "convertedValue (convert example_numberToString example_now (JSNumber (Fin 1))
        (Some ''second'') (Some ''year'') (Some ''time'')) = Some (Fin (598796070027871 / 2 ^ 74))
   \<and> convertedValue (convert example_numberToString example_now
          (JSNumber (Fin (598796070027871 / 2 ^ 74)))
        (Some ''year'') (Some ''second'') (Some ''time'')) = Some (Fin (563150013675039 / 2 ^ 49))
   \<and> 3 / 10 ^ 4 < \<bar>mag (Fin (563150013675039 / 2 ^ 49)) - mag (Fin 1)\<bar>"
proof -
  have t: "map_of UNIT_CATEGORIES ''time'' =
     Some \<lparr>display_name = ''Time'', icon = [CHR 0xE2, CHR 0x8F, CHR 0xB0],
           baseUnit = ''second'', units = time_units\<rparr>"
    by (simp add: UNIT_CATEGORIES_def)
  have s: "map_of (units \<lparr>display_name = ''Time'', icon = [CHR 0xE2, CHR 0x8F, CHR 0xB0],
           baseUnit = ''second'', units = time_units\<rparr>) ''second'' =
     Some \<lparr>name = ''Second'', symbol = ''s'', factor = Fin 1, classification = ''metric''\<rparr>"
    by (simp add: time_units_def)
  have y: "map_of (units \<lparr>display_name = ''Time'', icon = [CHR 0xE2, CHR 0x8F, CHR 0xB0],
           baseUnit = ''second'', units = time_units\<rparr>) ''year'' =
     Some \<lparr>name = ''Year'', symbol = ''yr'', factor = Fin 31556952, classification = ''common''\<rparr>"
    by (simp add: time_units_def)
  have c: "''time'' \<noteq> ''temperature''" "''second'' \<noteq> ''year''" "''year'' \<noteq> ''second''"
    by simp_all
  have fwd: "round10 (js_div (js_mul (Fin 1) (Fin 1)) (Fin 31556952))
      = Fin (598796070027871 / 2 ^ 74)"
    by (simp add: round10_def js_eval)
  have bwd: "round10 (js_div (js_mul (Fin (598796070027871 / 2 ^ 74)) (Fin 31556952)) (Fin 1))
      = Fin (563150013675039 / 2 ^ 49)"
    by (simp add: round10_def js_eval)
  have f: "is_finite (Fin 1)" "is_finite (Fin (598796070027871 / 2 ^ 74))" by simp_all
  show ?thesis
    using convert_linear_value[OF c(1) t s y c(2) f(1), of example_numberToString example_now]
      convert_linear_value[OF c(1) t y s c(3) f(2), of example_numberToString example_now]
      fwd bwd
    by simp
qed

section \<open>The result of \<open>convert\<close>\<close>

text \<open>
  Claim C5.  Whatever the value and whatever the unit and category arguments (strings or
  absent), \<open>convert\<close> returns a result object and lets no exception escape: every exception
  of the \<open>try\<close> block is a value of \<open>convert_try\<close>, which \<open>convert\<close> turns into the
  failure object.  The result echoes the value, both units and the category and carries a
  timestamp; it is either a success with a converted value and a formula, or a failure with
  an error message.
\<close>

theorem convert_never_throws:
  "originalValue (convert numberToString now v f t c) = v
   \<and> fromUnit (convert numberToString now v f t c) = f
   \<and> toUnit (convert numberToString now v f t c) = t
   \<and> category (convert numberToString now v f t c) = c
   \<and> timestamp (convert numberToString now v f t c) = now
   \<and> ((success (convert numberToString now v f t c) = True
        \<and> error (convert numberToString now v f t c) = None
        \<and> (\<exists>x. convertedValue (convert numberToString now v f t c) = Some x)
        \<and> (\<exists>s. formula (convert numberToString now v f t c) = Some s))
      \<or> (success (convert numberToString now v f t c) = False
        \<and> (\<exists>m. error (convert numberToString now v f t c) = Some m)
        \<and> convertedValue (convert numberToString now v f t c) = None
        \<and> formula (convert numberToString now v f t c) = None))"
proof (cases "convert_try numberToString v f t c")
  case (Inl e)
  then show ?thesis by (simp add: convert_of_try_Inl)
next
  case (Inr p)
  then show ?thesis by (cases p) (simp add: convert_of_try_Inr)
qed

text \<open>An unknown unit raises inside \<open>convertWithFactors\<close>; \<open>convert\<close> reports it.\<close>

theorem convert_never_throws_witness:
  "convert example_numberToString example_now (JSNumber (Fin 1))
       (Some ''bogus'') (Some ''meter'') (Some ''length'')
     = \<lparr>success = False,
        error = Some (''Unknown unit '' @ apostrophe @ ''bogus'' @ apostrophe @ '' in category ''
                      @ apostrophe @ ''length'' @ apostrophe),
        originalValue = JSNumber (Fin 1), convertedValue = None, fromUnit = Some ''bogus'',
        toUnit = Some ''meter'', category = Some ''length'', formula = None,
        timestamp = example_now\<rparr>"
proof -
  have w: "convertWithFactors (Fin 1) ''bogus'' ''meter'' ''length''
             = Inl (unknown_unit ''bogus'' ''length'')"
    by (simp add: convertWithFactors_def length_category get_prop_def length_units_def
        object_prototype_keys_def)
  have "convert_try example_numberToString (JSNumber (Fin 1))
          (Some ''bogus'') (Some ''meter'') (Some ''length'') = Inl (unknown_unit ''bogus'' ''length'')"
    by (simp add: convert_try_def isNaN_def w get_prop_own[OF length_category])
  then have "error (convert example_numberToString example_now (JSNumber (Fin 1))
       (Some ''bogus'') (Some ''meter'') (Some ''length''))
     = Some (''Unknown unit '' @ apostrophe @ ''bogus'' @ apostrophe @ '' in category ''
                      @ apostrophe @ ''length'' @ apostrophe)"
    by (simp add: convert_of_try_Inl unknown_unit_def)
  then show ?thesis
    using convert_never_throws[of example_numberToString example_now "JSNumber (Fin 1)"
        "Some ''bogus''" "Some ''meter''" "Some ''length''"]
    by (cases "convert example_numberToString example_now (JSNumber (Fin 1))
       (Some ''bogus'') (Some ''meter'') (Some ''length'')") auto
qed

section \<open>Validation of the value\<close>

text \<open>
  Claim C6, as amended.  For every value that is not of type Number, and for \<open>NaN\<close>,
  whatever the unit and category arguments, \<open>convert\<close> fails with a message that contains
  \<open>valid number\<close>.  The infinities are Numbers other than \<open>NaN\<close> and pass this check.
\<close>

theorem convert_invalid_value:
  assumes "typeof v \<noteq> ''number'' \<or> v = JSNumber NaN"
  shows "success (convert numberToString now v f t c) = False
       \<and> (\<exists>m. error (convert numberToString now v f t c) = Some m \<and> sublist ''valid number'' m)"
proof -
  have s: "sublist ''valid number'' ''Value must be a valid number''"
    by (simp add: sublist_Cons_right)
  from assms have "convert_try numberToString v f t c = Inl (Error ''Value must be a valid number'')"
    by (cases v) (auto simp: convert_try_def isNaN_def)
  then show ?thesis
    using s by (simp add: convert_of_try_Inl)
qed

theorem convert_invalid_value_witness:
  "typeof (JSString ''abc'') = ''string''
   \<and> success (convert example_numberToString example_now (JSString ''abc'')
        (Some ''meter'') (Some ''centimeter'') (Some ''length'')) = False
   \<and> error (convert example_numberToString example_now (JSString ''abc'')
        (Some ''meter'') (Some ''centimeter'') (Some ''length'')) = Some ''Value must be a valid number''
   \<and> success (convert example_numberToString example_now (JSNumber NaN)
        (Some ''meter'') (Some ''centimeter'') (Some ''length'')) = False"
proof -
  have h: "typeof (JSString ''abc'') \<noteq> ''number'' \<or> JSString ''abc'' = JSNumber NaN"
    by simp
  have n: "typeof (JSNumber NaN) \<noteq> ''number'' \<or> JSNumber NaN = JSNumber NaN"
    by simp
  have e: "error (convert example_numberToString example_now (JSString ''abc'')
        (Some ''meter'') (Some ''centimeter'') (Some ''length'')) = Some ''Value must be a valid number''"
    by (simp add: convert_def convert_try_def)
  show ?thesis
    using convert_invalid_value[OF h, of example_numberToString example_now
        "Some ''meter''" "Some ''centimeter''" "Some ''length''"]
      convert_invalid_value[OF n, of example_numberToString example_now
        "Some ''meter''" "Some ''centimeter''" "Some ''length''"] e
    by simp
qed

text \<open>
  The claim as stated fails at \<open>Infinity\<close>: the conversion of an infinite length succeeds.
\<close>

theorem convert_accepts_infinity:
  "success (convert example_numberToString example_now (JSNumber PInf)
        (Some ''meter'') (Some ''centimeter'') (Some ''length'')) = True
   \<and> convertedValue (convert example_numberToString example_now (JSNumber PInf)
        (Some ''meter'') (Some ''centimeter'') (Some ''length'')) = Some PInf"
proof -
  have w: "convertWithFactors PInf ''meter'' ''centimeter'' ''length'' = Inr PInf"
    by (simp add: convertWithFactors_def get_prop_def length_category length_units_def
        roundToPrecision_10 round10_def js_eval)
  have g: "\<exists>s. getConversionFormula example_numberToString PInf ''meter'' ''centimeter'' ''length'' = Inr s"
    by (rule formula_own[OF length_category]) (simp_all add: length_units_def)
  then obtain s where "convert_try example_numberToString (JSNumber PInf)
        (Some ''meter'') (Some ''centimeter'') (Some ''length'') = Inr (PInf, s)"
    by (auto simp: convert_try_def isNaN_def w get_prop_own[OF length_category])
  then show ?thesis by (simp add: convert_of_try_Inr)
qed

section \<open>Missing unit or category\<close>

text \<open>
  Claim C7, as amended.  When the value is a finite Number and \<open>fromUnit\<close>, \<open>toUnit\<close> or
  \<open>category\<close> is absent or the empty string, \<open>convert\<close> fails with the one message
  \<open>From unit, to unit, and category are required\<close>, whichever of the three is missing.
\<close>

theorem convert_missing_field:
  assumes "is_finite n" and "falsy f \<or> falsy t \<or> falsy c"
  shows "success (convert numberToString now (JSNumber n) f t c) = False
       \<and> error (convert numberToString now (JSNumber n) f t c)
           = Some ''From unit, to unit, and category are required''"
proof -
  from assms(1) have "\<not> isNaN n" by (rule finite_not_NaN)
  with assms(2) have "convert_try numberToString (JSNumber n) f t c
      = Inl (Error ''From unit, to unit, and category are required'')"
    by (simp add: convert_try_def)
  then show ?thesis by (simp add: convert_of_try_Inl)
qed

theorem convert_missing_field_witness:
  "is_finite (Fin 1) \<and> (falsy (Some ''meter'') \<or> falsy (Some []) \<or> falsy (Some ''length''))
   \<and> success (convert example_numberToString example_now (JSNumber (Fin 1))
        (Some ''meter'') (Some []) (Some ''length'')) = False
   \<and> error (convert example_numberToString example_now (JSNumber (Fin 1))
        (Some ''meter'') (Some []) (Some ''length''))
       = Some ''From unit, to unit, and category are required''"
proof -
  have n: "is_finite (Fin 1)" by simp
  have m: "falsy (Some ''meter'') \<or> falsy (Some []) \<or> falsy (Some ''length'')" by simp
  show ?thesis
    using convert_missing_field[OF n m, of example_numberToString example_now] n m
    by simp
qed

text \<open>
  The message does not single out the missing field: a call without a category and a call
  without a source unit fail with the same text, which lists all three fields.
\<close>

theorem convert_missing_field_same_message:
  "error (convert example_numberToString example_now (JSNumber (Fin 1))
        (Some ''meter'') (Some ''foot'') None)
     = Some ''From unit, to unit, and category are required''
   \<and> error (convert example_numberToString example_now (JSNumber (Fin 1))
        None (Some ''foot'') (Some ''length''))
     = Some ''From unit, to unit, and category are required''"
  by (simp add: convert_def convert_try_def isNaN_def)

section \<open>Formula rendering\<close>

lemma formula_key_not_inherited: "f @ ''-'' @ t \<notin> set object_prototype_keys"
proof -
  have "CHR ''-'' \<in> set (f @ ''-'' @ t)" by simp
  moreover have "\<forall>k \<in> set object_prototype_keys. CHR ''-'' \<notin> set k"
    by (simp add: object_prototype_keys_def)
  ultimately show ?thesis by blast
qed

text \<open>Within the temperature category the rendering never raises, whatever the unit keys.\<close>

lemma temperature_formula_total:
  "\<exists>s. getConversionFormula nts v f t ''temperature'' = Inr s"
  by (rule formula_own_category[OF temperature_category])

text \<open>The twelve ordered pairs of distinct temperature units render the strings of the table.\<close>

lemma temperature_formula_table:
  "getConversionFormula nts v ''celsius'' ''fahrenheit'' ''temperature''
     = Inr (degree_sign @ ''C '' @ times_sign @ '' 9/5 + 32 = '' @ degree_sign @ ''F'')"
  "getConversionFormula nts v ''fahrenheit'' ''celsius'' ''temperature''
     = Inr (''('' @ degree_sign @ ''F - 32) '' @ times_sign @ '' 5/9 = '' @ degree_sign @ ''C'')"
  "getConversionFormula nts v ''celsius'' ''kelvin'' ''temperature''
     = Inr (degree_sign @ ''C + 273.15 = K'')"
  "getConversionFormula nts v ''kelvin'' ''celsius'' ''temperature''
     = Inr (''K - 273.15 = '' @ degree_sign @ ''C'')"
  "getConversionFormula nts v ''fahrenheit'' ''kelvin'' ''temperature''
     = Inr (''('' @ degree_sign @ ''F - 32) '' @ times_sign @ '' 5/9 + 273.15 = K'')"
  "getConversionFormula nts v ''kelvin'' ''fahrenheit'' ''temperature''
     = Inr (''(K - 273.15) '' @ times_sign @ '' 9/5 + 32 = '' @ degree_sign @ ''F'')"
  "getConversionFormula nts v ''celsius'' ''rankine'' ''temperature''
     = Inr (degree_sign @ ''C '' @ times_sign @ '' 9/5 + 491.67 = '' @ degree_sign @ ''R'')"
  "getConversionFormula nts v ''rankine'' ''celsius'' ''temperature''
     = Inr (''('' @ degree_sign @ ''R - 491.67) '' @ times_sign @ '' 5/9 = '' @ degree_sign @ ''C'')"
  "getConversionFormula nts v ''fahrenheit'' ''rankine'' ''temperature''
     = Inr (degree_sign @ ''F + 459.67 = '' @ degree_sign @ ''R'')"
  "getConversionFormula nts v ''rankine'' ''fahrenheit'' ''temperature''
     = Inr (degree_sign @ ''R - 459.67 = '' @ degree_sign @ ''F'')"
  "getConversionFormula nts v ''kelvin'' ''rankine'' ''temperature''
     = Inr (''K '' @ times_sign @ '' 9/5 = '' @ degree_sign @ ''R'')"
  "getConversionFormula nts v ''rankine'' ''kelvin'' ''temperature''
     = Inr (degree_sign @ ''R '' @ times_sign @ '' 5/9 = K'')"
  by (simp_all add: getConversionFormula_def get_prop_def temperature_category
      temperature_units_def getTemperatureFormula_def formulas_def degree_sign_def times_sign_def)

text \<open>Every other pair of the temperature category, a same-unit pair included, renders the empty string.\<close>

lemma temperature_formula_other_pair:
  assumes "map_of formulas (f @ ''-'' @ t) = None"
  shows "getConversionFormula nts v f t ''temperature'' = Inr []"
proof -
  have "getTemperatureFormula f t = []"
    using assms by (simp add: getTemperatureFormula_def get_prop_def)
  then show ?thesis
    by (simp add: getConversionFormula_def get_prop_own[OF temperature_category] Let_def)
qed

lemma temperature_formula_same_unit:
  "u \<in> set temperature_keys \<Longrightarrow> getConversionFormula nts v u u ''temperature'' = Inr []"
  by (rule temperature_formula_other_pair) (auto simp: temperature_keys_def formulas_def)

text \<open>A category key the registry does not have and does not inherit renders the empty string.\<close>

lemma formula_unknown_category:
  "map_of UNIT_CATEGORIES c = None \<Longrightarrow> c \<notin> set object_prototype_keys \<Longrightarrow>
   getConversionFormula nts v f t c = Inr []"
  by (simp add: formula_no_category)

text \<open>
  Claim C8 says that the rendering never raises and gives the empty string for every
  category or unit the registry cannot resolve.  The code misses the keys every object
  inherits from \<open>Object.prototype\<close>: for the category \<open>constructor\<close> the lookup
  \<open>UNIT_CATEGORIES[category]\<close> is truthy, the guard passes, and reading \<open>units[fromUnit]\<close>
  of \<open>undefined\<close> raises a \<open>TypeError\<close>; for the unit \<open>constructor\<close> of a category both
  guards pass and a string built from \<open>undefined\<close> and \<open>NaN\<close> is returned.
\<close>

theorem formula_inherited_keys:
  "getConversionFormula numberToString (Fin 1) ''meter'' ''foot'' ''constructor''
     = Inl (TypeError (''Cannot read properties of undefined (reading '' @ apostrophe
                        @ ''meter'' @ apostrophe @ '')''))
   \<and> getConversionFormula numberToString (Fin 1) ''constructor'' ''meter'' ''length''
     = Inr (numberToString (Fin 1) @ '' undefined = '' @ numberToString (Fin 1) @ '' ''
            @ times_sign @ '' '' @ numberToString NaN @ '' = '' @ numberToString NaN @ '' m'')"
proof -
  have r: "roundToPrecision NaN 10 = NaN"
    by (simp add: roundToPrecision_def js_add_def js_mul_def js_div_def)
  show ?thesis
    by (simp add: getConversionFormula_def get_prop_def UNIT_CATEGORIES_def length_units_def
        object_prototype_keys_def cannot_read_def js_div_def js_mul_def r)
qed

section \<open>The registry's base units\<close>

text \<open>
  Claim C9.  For every category of the registry table, the key of its base unit is a key of
  its own unit table, and the base unit's factor is 1; and every unit of the temperature
  category has the factor 1.
\<close>

theorem registry_base_units:
  assumes "(c, cd) \<in> set UNIT_CATEGORIES"
  shows "(\<exists>u. map_of (units cd) (baseUnit cd) = Some u \<and> factor u = Fin 1)
       \<and> (c = ''temperature'' \<longrightarrow> (\<forall>(k, u) \<in> set (units cd). factor u = Fin 1))"
  using assms by (auto simp: UNIT_CATEGORIES_def units_defs)

theorem registry_base_units_witness:
  "(''temperature'',
      \<lparr>display_name = ''Temperature'',
       icon = [CHR 0xF0, CHR 0x9F, CHR 0x8C, CHR 0xA1, CHR 0xEF, CHR 0xB8, CHR 0x8F],
       baseUnit = ''celsius'', units = temperature_units\<rparr>) \<in> set UNIT_CATEGORIES
   \<and> map_of temperature_units ''celsius''
       = Some \<lparr>name = ''Celsius'', symbol = [CHR 0xC2, CHR 0xB0] @ ''C'', factor = Fin 1,
               classification = ''metric''\<rparr>
   \<and> map (\<lambda>(k, u). factor u) temperature_units = [Fin 1, Fin 1, Fin 1, Fin 1]"
proof -
  have m: "(''temperature'',
      \<lparr>display_name = ''Temperature'',
       icon = [CHR 0xF0, CHR 0x9F, CHR 0x8C, CHR 0xA1, CHR 0xEF, CHR 0xB8, CHR 0x8F],
       baseUnit = ''celsius'', units = temperature_units\<rparr>) \<in> set UNIT_CATEGORIES"
    by (simp add: UNIT_CATEGORIES_def)
  have u: "map_of temperature_units ''celsius''
       = Some \<lparr>name = ''Celsius'', symbol = [CHR 0xC2, CHR 0xB0] @ ''C'', factor = Fin 1,
               classification = ''metric''\<rparr>"
    by (simp add: temperature_units_def)
  have "\<forall>(k, u) \<in> set temperature_units. factor u = Fin 1"
    using registry_base_units[OF m] by simp
  then have "map (\<lambda>(k, u). factor u) temperature_units = [Fin 1, Fin 1, Fin 1, Fin 1]"
    by (simp add: temperature_units_def)
  with m u show ?thesis by simp
qed

section \<open>The same-unit shortcut and the resolution of the category\<close>

text \<open>
  Claim C10, as amended.  The same-unit shortcut is taken before the units are resolved and
  after the category is: for every category key \<open>c\<close> of the registry, every finite Number
  \<open>v\<close> and every non-empty string \<open>u\<close>, a unit key of \<open>c\<close> or not, \<open>convert(v, u, u, c)\<close>
  succeeds with \<open>convertedValue = v\<close>; and for every string \<open>c\<close> that is no category key of
  the registry, \<open>convert(v, u, u, c)\<close> fails, for every string \<open>u\<close>.
\<close>

theorem convert_same_unit_any_key:
  "(map_of UNIT_CATEGORIES c = Some cd \<and> is_finite v \<and> u \<noteq> [] \<longrightarrow>
      success (convert numberToString now (JSNumber v) (Some u) (Some u) (Some c))
      \<and> convertedValue (convert numberToString now (JSNumber v) (Some u) (Some u) (Some c)) = Some v)
   \<and> (map_of UNIT_CATEGORIES c = None \<and> is_finite v \<longrightarrow>
      success (convert numberToString now (JSNumber v) (Some u) (Some u) (Some c)) = False)"
proof (intro conjI impI)
  assume a: "map_of UNIT_CATEGORIES c = Some cd \<and> is_finite v \<and> u \<noteq> []"
  then have nn: "\<not> isNaN v" and ne: "u \<noteq> []" "c \<noteq> []"
    by (auto dest: finite_not_NaN category_key_nonempty)
  from a formula_own_category obtain s
    where s: "getConversionFormula numberToString v u u c = Inr s"
    by blast
  have t: "convert_try numberToString (JSNumber v) (Some u) (Some u) (Some c) = Inr (v, s)"
    using nn ne s a
    by (cases "c = ''temperature''")
      (simp_all add: convert_try_def get_prop_own convertTemperature_def convertWithFactors_def)
  from t show "success (convert numberToString now (JSNumber v) (Some u) (Some u) (Some c))"
    by (simp add: convert_of_try_Inr)
  from t show "convertedValue (convert numberToString now (JSNumber v) (Some u) (Some u) (Some c)) = Some v"
    by (simp add: convert_of_try_Inr)
next
  assume a: "map_of UNIT_CATEGORIES c = None \<and> is_finite v"
  then have t: "c \<noteq> ''temperature''"
    using temperature_category by auto
  have "\<exists>e. convert_try numberToString (JSNumber v) (Some u) (Some u) (Some c) = Inl e"
    using a t
    by (simp add: convert_try_def get_prop_def convertWithFactors_def formula_no_category)
  then show "success (convert numberToString now (JSNumber v) (Some u) (Some u) (Some c)) = False"
    by (auto simp: convert_of_try_Inl)
qed

text \<open>
  A same-unit conversion of a key the category does not have succeeds; in an unknown
  category, and in the category \<open>constructor\<close> that the registry object only inherits, it fails.
\<close>

theorem convert_same_unit_any_key_witness:
  "map_of UNIT_CATEGORIES ''length''
     = Some \<lparr>display_name = ''Length'', icon = [CHR 0xF0, CHR 0x9F, CHR 0x93, CHR 0x8F],
             baseUnit = ''meter'', units = length_units\<rparr>
   \<and> is_finite (Fin 7) \<and> ''bogus'' \<noteq> []
   \<and> convertedValue (convert example_numberToString example_now (JSNumber (Fin 7))
        (Some ''bogus'') (Some ''bogus'') (Some ''length'')) = Some (Fin 7)
   \<and> map_of UNIT_CATEGORIES ''unknown'' = None
   \<and> success (convert example_numberToString example_now (JSNumber (Fin 7))
        (Some ''meter'') (Some ''meter'') (Some ''unknown'')) = False
   \<and> map_of UNIT_CATEGORIES ''constructor'' = None
   \<and> success (convert example_numberToString example_now (JSNumber (Fin 7))
        (Some ''meter'') (Some ''meter'') (Some ''constructor'')) = False"
proof -
  have f: "is_finite (Fin 7)" by simp
  have b: "''bogus'' \<noteq> []" by simp
  have n: "map_of UNIT_CATEGORIES ''unknown'' = None" "map_of UNIT_CATEGORIES ''constructor'' = None"
    by (simp_all add: UNIT_CATEGORIES_def)
  show ?thesis
    using convert_same_unit_any_key[of "''length''" _ "Fin 7" "''bogus''"
        example_numberToString example_now]
      convert_same_unit_any_key[of "''unknown''" _ "Fin 7" "''meter''"
        example_numberToString example_now]
      convert_same_unit_any_key[of "''constructor''" _ "Fin 7" "''meter''"
        example_numberToString example_now]
      length_category f b n
    by simp
qed

text \<open>
  The claim as stated, for every string \<open>u\<close>, fails at the empty string, which the guard on
  missing fields rejects before the category is looked at.
\<close>

theorem convert_same_unit_empty_key:
  "success (convert example_numberToString example_now (JSNumber (Fin 7))
        (Some []) (Some []) (Some ''length'')) = False"
  by (simp add: convert_def convert_try_def isNaN_def)

end
